theory Spec2Isabelle
  imports Complex_Main
begin

section \<open>JavaScript values and helpers used by server.js\<close>

text \<open>
  A JavaScript string-valued slot that may be \<open>undefined\<close>/\<open>null\<close> is a
  \<open>string option\<close>. Such a value is truthy exactly when it is a non-empty string.
\<close>

definition truthy :: "string option \<Rightarrow> bool" where
  "truthy v = (case v of None \<Rightarrow> False | Some s \<Rightarrow> s \<noteq> [])"

text \<open>
  \<open>String.prototype.replace(pat, rep)\<close> with a string pattern: only the first
  occurrence of \<open>pat\<close> (at any position) is replaced.
\<close>

fun replace_first :: "string \<Rightarrow> string \<Rightarrow> string \<Rightarrow> string" where
  "replace_first pat rep [] = (if pat = [] then rep else [])"
| "replace_first pat rep (c # cs) =
     (if take (length pat) (c # cs) = pat then rep @ drop (length pat) (c # cs)
      else c # replace_first pat rep cs)"

text \<open>
  A value that Express puts into \<open>req.query.api_key\<close> (or that \<open>||\<close> selects
  among the carriers): absent, a string, or an array/object built by the query parser
  (always truthy, never \<open>===\<close> to a string).
\<close>

datatype jsval = Undefined | Str string | Structured

fun js_truthy :: "jsval \<Rightarrow> bool" where
  "js_truthy Undefined = False"
| "js_truthy (Str s) = (s \<noteq> [])"
| "js_truthy Structured = True"

text \<open>\<open>a || b\<close>: the left operand when it is truthy, otherwise the right one.\<close>

definition js_or :: "jsval \<Rightarrow> jsval \<Rightarrow> jsval" where
  "js_or a b = (if js_truthy a then a else b)"

definition of_header :: "string option \<Rightarrow> jsval" where
  "of_header h = (case h of None \<Rightarrow> Undefined | Some s \<Rightarrow> Str s)"

section \<open>API key authentication middleware\<close>

text \<open>
  The parts of an incoming Express request that server.js reads: the three credential
  carriers, the session header and the parsed JSON body.
\<close>

record 'b request =
  x_api_key :: "string option"
  authorization :: "string option"
  query_api_key :: jsval
  mcp_session_id :: "string option"
  body :: 'b

datatype middleware_result =
    Next
  | Rejected nat string string

text \<open>
  \<open>providedKey = req.headers["x-api-key"] || req.headers["authorization"]?.replace("Bearer ", "")
  || req.query.api_key\<close>
\<close>

definition providedKey :: "'b request \<Rightarrow> jsval" where
  "providedKey req =
     js_or (of_header (x_api_key req))
       (js_or (of_header (map_option (replace_first ''Bearer '' '''') (authorization req)))
          (query_api_key req))"

text \<open>\<open>validateApiKey(req, res, next)\<close>; the first argument is the constant \<open>API_KEY\<close>.\<close>

definition validateApiKey :: "string option \<Rightarrow> 'b request \<Rightarrow> middleware_result" where
  "validateApiKey API_KEY req =
     (case API_KEY of
        None \<Rightarrow> Next
      | Some key \<Rightarrow>
          if key = [] then Next
          else if \<not> js_truthy (providedKey req) then
            Rejected 401 ''Unauthorized''
              ''API key required. Provide via x-api-key header, Authorization: Bearer header, or api_key query parameter''
          else if providedKey req \<noteq> Str key then
            Rejected 403 ''Forbidden'' ''Invalid API key''
          else Next)"

section \<open>Errors, fetch results and number formatting\<close>

text \<open>A thrown JavaScript \<open>Error\<close> (or \<open>TypeError\<close>, \<open>SyntaxError\<close>), with its message.\<close>

datatype js_error = Error string

text \<open>
  What \<open>await fetch(...)\<close> settles to: a rejection (network failure) with its message, or
  a response with its status code, its body as \<open>response.text()\<close> gives it, and what
  \<open>response.json()\<close> settles to (\<open>Inl\<close>: rejection with the parser's message,
  \<open>Inr\<close>: the parsed body, typed by the endpoint).
\<close>

datatype 'a fetch_result =
    FetchRejects string
  | Response nat string "string + 'a"

text \<open>\<open>response.ok\<close>\<close>

definition ok :: "nat \<Rightarrow> bool" where
  "ok st = (200 \<le> st \<and> st \<le> 299)"

text \<open>Decimal rendering of a status code inside a template string.\<close>

definition digit_char :: "nat \<Rightarrow> char" where
  "digit_char d = ''0123456789'' ! d"

fun show_nat :: "nat \<Rightarrow> string" where
  "show_nat n =
     (if n < 10 then [digit_char n]
      else show_nat (n div 10) @ [digit_char (n mod 10)])"

declare show_nat.simps [simp del]

text \<open>A possibly \<open>undefined\<close> string inside a template string.\<close>

definition tmpl :: "string option \<Rightarrow> string" where
  "tmpl v = (case v of None \<Rightarrow> ''undefined'' | Some s \<Rightarrow> s)"

section \<open>Dataverse client: the credential cache\<close>

text \<open>
  The module-level slots \<open>dataverseToken\<close> (initially \<open>null\<close>) and
  \<open>tokenExpiry\<close> (initially 0; \<open>None\<close> stands for \<open>NaN\<close>, which arises when the
  token response has no \<open>expires_in\<close>). Times are milliseconds as \<open>Date.now()\<close>
  gives them.
\<close>

record token_cache =
  dataverseToken :: "string option"
  tokenExpiry :: "int option"

definition initial_cache :: token_cache where
  "initial_cache = \<lparr> dataverseToken = None, tokenExpiry = Some 0 \<rparr>"

text \<open>The parsed body of a successful token response.\<close>

record token_data =
  access_token :: "string option"
  expires_in :: "int option"

text \<open>\<open>dataverseToken && Date.now() < tokenExpiry - 300000\<close>\<close>

definition cache_valid :: "token_cache \<Rightarrow> int \<Rightarrow> bool" where
  "cache_valid c now =
     (truthy (dataverseToken c) \<and>
      (case tokenExpiry c of None \<Rightarrow> False | Some e \<Rightarrow> now < e - 300000))"

text \<open>The outgoing HTTP calls of the Dataverse client, in the order they are issued.\<close>

datatype 'p http_call =
    TokenExchange
  | DataverseRequest string string "'p option" string

text \<open>
  What the environment supplies to one run of \<open>getDataverseToken\<close>: the clock at the
  validity test, what the token request settles to, and the clock when the new token is
  stored.
\<close>

record token_env =
  now_check :: int
  token_reply :: "token_data fetch_result"
  now_store :: int

text \<open>
  \<open>getDataverseToken()\<close> run without interleaving: the returned token or the thrown
  error, the cache afterwards, and the number of token-exchange calls issued.
\<close>

definition getDataverseToken ::
  "token_env \<Rightarrow> token_cache \<Rightarrow> (js_error + string option) \<times> token_cache \<times> nat" where
  "getDataverseToken env c =
     (if cache_valid c (now_check env) then (Inr (dataverseToken c), c, 0)
      else
        (case token_reply env of
           FetchRejects m \<Rightarrow> (Inl (Error m), c, 1)
         | Response st txt js \<Rightarrow>
             if \<not> ok st then (Inl (Error (''Failed to get Dataverse token: '' @ txt)), c, 1)
             else
               (case js of
                  Inl m \<Rightarrow> (Inl (Error m), c, 1)
                | Inr d \<Rightarrow>
                    (Inr (access_token d),
                     \<lparr> dataverseToken = access_token d,
                       tokenExpiry = map_option (\<lambda>secs. now_store env + secs * 1000) (expires_in d) \<rparr>,
                     1))))"

subsection \<open>The same function under interleaving\<close>

text \<open>
  \<open>getDataverseToken\<close> is an \<open>async\<close> function: it runs to its first \<open>await\<close>
  without interruption, and other callers may run while it is suspended. Each call is in
  one of these states: not yet invoked; suspended at \<open>await fetch(tokenUrl, ...)\<close>;
  suspended at \<open>await response.text()\<close>; suspended at \<open>await response.json()\<close>;
  returned; thrown.
\<close>

datatype call_state =
    Idle
  | AwaitFetch
  | AwaitText string
  | AwaitJson "string + token_data"
  | Returned "string option"
  | Thrown js_error

record token_system =
  cache :: token_cache
  calls :: "call_state list"
  exchanges :: nat

text \<open>
  The scheduler's events: caller \<open>i\<close> invokes the function at clock \<open>now\<close>; the token
  request of caller \<open>i\<close> settles; the body read of caller \<open>i\<close> settles at clock
  \<open>now\<close>.
\<close>

datatype token_event =
    Invoke nat int
  | FetchSettles nat "token_data fetch_result"
  | BodySettles nat int

definition set_call :: "nat \<Rightarrow> call_state \<Rightarrow> token_system \<Rightarrow> token_system" where
  "set_call i cs s = s\<lparr> calls := (calls s)[i := cs] \<rparr>"

fun token_step :: "token_event \<Rightarrow> token_system \<Rightarrow> token_system" where
  "token_step (Invoke i now) s =
     (if i < length (calls s) \<and> calls s ! i = Idle then
        (if cache_valid (cache s) now then set_call i (Returned (dataverseToken (cache s))) s
         else set_call i AwaitFetch (s\<lparr> exchanges := Suc (exchanges s) \<rparr>))
      else s)"
| "token_step (FetchSettles i r) s =
     (if i < length (calls s) \<and> calls s ! i = AwaitFetch then
        (case r of
           FetchRejects m \<Rightarrow> set_call i (Thrown (Error m)) s
         | Response st txt js \<Rightarrow>
             if \<not> ok st then set_call i (AwaitText txt) s
             else set_call i (AwaitJson js) s)
      else s)"
| "token_step (BodySettles i now) s =
     (if i < length (calls s) then
        (case calls s ! i of
           AwaitText txt \<Rightarrow>
             set_call i (Thrown (Error (''Failed to get Dataverse token: '' @ txt))) s
         | AwaitJson (Inl m) \<Rightarrow> set_call i (Thrown (Error m)) s
         | AwaitJson (Inr d) \<Rightarrow>
             set_call i (Returned (access_token d))
               (s\<lparr> cache := \<lparr> dataverseToken = access_token d,
                      tokenExpiry = map_option (\<lambda>secs. now + secs * 1000) (expires_in d) \<rparr> \<rparr>)
         | _ \<Rightarrow> s)
      else s)"

fun token_run :: "token_event list \<Rightarrow> token_system \<Rightarrow> token_system" where
  "token_run [] s = s"
| "token_run (e # es) s = token_run es (token_step e s)"

definition token_system_init :: "token_cache \<Rightarrow> nat \<Rightarrow> token_system" where
  "token_system_init c n = \<lparr> cache = c, calls = replicate n Idle, exchanges = 0 \<rparr>"

text \<open>
  A schedule in which the listed callers invoke the function one after another, each at
  its clock value, before anything settles.
\<close>

definition invokes :: "(nat \<times> int) list \<Rightarrow> token_event list" where
  "invokes ivs = map (\<lambda>(i, now). Invoke i now) ivs"

section \<open>Dataverse client: callDataverse\<close>

text \<open>What \<open>callDataverse\<close> returns: \<open>{ success: true }\<close> on 204, else the parsed body.\<close>

datatype 'a dataverse_result = SuccessTrue | Parsed 'a

record 'a dataverse_env =
  token_part :: token_env
  api_reply :: "'a fetch_result"

text \<open>
  \<open>callDataverse(endpoint, method, body)\<close>: result or thrown error, cache afterwards, and
  the HTTP calls issued in order.
\<close>

definition callDataverse ::
  "string \<Rightarrow> string \<Rightarrow> 'p option \<Rightarrow> 'a dataverse_env \<Rightarrow> token_cache \<Rightarrow>
     (js_error + 'a dataverse_result) \<times> token_cache \<times> 'p http_call list" where
  "callDataverse endpoint method body_arg env c =
     (case getDataverseToken (token_part env) c of
        (Inl e, c', n) \<Rightarrow> (Inl e, c', replicate n TokenExchange)
      | (Inr token, c', n) \<Rightarrow>
          (let issued = replicate n TokenExchange @
                 [DataverseRequest method endpoint body_arg (''Bearer '' @ tmpl token)]
           in case api_reply env of
                FetchRejects m \<Rightarrow> (Inl (Error m), c', issued)
              | Response st txt js \<Rightarrow>
                  if \<not> ok st then
                    (Inl (Error (''Dataverse API error '' @ show_nat st @ '': '' @ txt)), c', issued)
                  else if st = 204 then (Inr SuccessTrue, c', issued)
                  else (case js of
                          Inl m \<Rightarrow> (Inl (Error m), c', issued)
                        | Inr v \<Rightarrow> (Inr (Parsed v), c', issued))))"

section \<open>Tool handlers that write to or summarise the record store\<close>

text \<open>
  The value a tool handler returns, \<open>{ content: [{ type: "text", text: ... }] }\<close>: the
  text is a literal, or \<open>JSON.stringify(v, null, 2)\<close> of a value \<open>v\<close> kept structured.
\<close>

datatype 'j tool_result = TextResult string | JsonResult 'j

text \<open>\<open>getStatusLabel(status)\<close>: \<open>labels[status] || "Unknown"\<close>\<close>

definition getStatusLabel :: "rat \<Rightarrow> string" where
  "getStatusLabel st =
     (if st = 1 then ''Pending'' else if st = 2 then ''Under Review''
      else if st = 3 then ''Approved'' else if st = 4 then ''Rejected'' else ''Unknown'')"

text \<open>
  The \<open>update_customer_status\<close> handler. Arguments may be absent (\<open>None\<close>); the request
  body of the PATCH is \<open>{ cr_status: status }\<close>, kept as the number. The handler has no
  \<open>try\<close>/\<open>catch\<close>: an error thrown by \<open>callDataverse\<close> leaves the handler.
\<close>

definition update_customer_status ::
  "string option \<Rightarrow> rat option \<Rightarrow> 'a dataverse_env \<Rightarrow> token_cache \<Rightarrow>
     (js_error + 'j tool_result) \<times> token_cache \<times> rat http_call list" where
  "update_customer_status customerId status env c =
     (case (customerId, status) of
        (Some cid, Some st) \<Rightarrow>
          if cid = [] \<or> st = 0 then
            (Inr (TextResult ''customerId and status are required''), c, [])
          else if st < 1 \<or> st > 4 then
            (Inr (TextResult
               ''status must be 1 (Pending), 2 (Under Review), 3 (Approved), or 4 (Rejected)''), c, [])
          else
            (case callDataverse (''cr_kyccustomers('' @ cid @ '')'') ''PATCH'' (Some st) env c of
               (Inl e, c', issued) \<Rightarrow> (Inl e, c', issued)
             | (Inr _, c', issued) \<Rightarrow>
                 (Inr (TextResult (''Customer status updated to '' @ [CHR 0x22] @ getStatusLabel st
                         @ [CHR 0x22] @ '' successfully.'')), c', issued))
      | _ \<Rightarrow> (Inr (TextResult ''customerId and status are required''), c, []))"

text \<open>
  The \<open>get_kyc_summary\<close> handler. A row's \<open>cr_status\<close> is a number or something that
  is never \<open>===\<close> to one (\<open>None\<close>); \<open>result.value\<close> may be absent.
\<close>

record customer_row =
  cr_status :: "rat option"

record customer_list =
  value_field :: "customer_row list option"

record kyc_summary =
  totalCustomers :: nat
  pending :: nat
  underReview :: nat
  approved :: nat
  rejected :: nat

definition count_status :: "rat \<Rightarrow> customer_row list \<Rightarrow> nat" where
  "count_status k customers = length (filter (\<lambda>c. cr_status c = Some k) customers)"

definition get_kyc_summary ::
  "customer_list dataverse_env \<Rightarrow> token_cache \<Rightarrow>
     (js_error + kyc_summary tool_result) \<times> token_cache \<times> rat http_call list" where
  "get_kyc_summary env c =
     (case callDataverse ''cr_kyccustomers?$select=cr_kyccustomerid,cr_status'' ''GET'' None env c of
        (Inl e, c', issued) \<Rightarrow> (Inl e, c', issued)
      | (Inr result, c', issued) \<Rightarrow>
          (case (case result of SuccessTrue \<Rightarrow> None | Parsed v \<Rightarrow> value_field v) of
             None \<Rightarrow>
               (Inl (Error ''Cannot read properties of undefined (reading 'length')''), c', issued)
           | Some customers \<Rightarrow>
               (Inr (JsonResult
                  \<lparr> totalCustomers = length customers,
                    pending = count_status 1 customers,
                    underReview = count_status 2 customers,
                    approved = count_status 3 customers,
                    rejected = count_status 4 customers \<rparr>), c', issued)))"

section \<open>The tool dispatcher\<close>

text \<open>
  Modelled from the spec: the \<open>tools/call\<close> dispatch of \<open>McpServer\<close> (package
  \<open>@modelcontextprotocol/sdk\<close>), which runs the handler registered by
  \<open>mcpServer.tool(...)\<close> and is not among the repository's sources. The specification
  says of this boundary: "Every exception raised by a handler is caught at this boundary
  and converted into a successful envelope whose payload is an error-describing text".
  The text is the message of the thrown error; what the handler returns is passed on.
\<close>

definition tool_call :: "js_error + 'j tool_result \<Rightarrow> 'j tool_result" where
  "tool_call outcome = (case outcome of Inl (Error m) \<Rightarrow> TextResult m | Inr r \<Rightarrow> r)"

text \<open>
  The two tools whose handlers have no \<open>catch\<close> of their own, invoked through the
  dispatcher; the cache and the issued HTTP calls are the handler's.
\<close>

definition call_update_customer_status ::
  "string option \<Rightarrow> rat option \<Rightarrow> 'a dataverse_env \<Rightarrow> token_cache \<Rightarrow>
     'j tool_result \<times> token_cache \<times> rat http_call list" where
  "call_update_customer_status customerId status env c =
     (case update_customer_status customerId status env c of
        (outcome, c', issued) \<Rightarrow> (tool_call outcome, c', issued))"

definition call_get_kyc_summary ::
  "customer_list dataverse_env \<Rightarrow> token_cache \<Rightarrow>
     kyc_summary tool_result \<times> token_cache \<times> rat http_call list" where
  "call_get_kyc_summary env c =
     (case get_kyc_summary env c of
        (outcome, c', issued) \<Rightarrow> (tool_call outcome, c', issued))"

section \<open>Azure Document Intelligence client\<close>

text \<open>
  The parsed body of a poll response, as far as \<open>extractTextFromDocument\<close> reads it:
  \<open>status\<close>, the JSON text of \<open>error\<close> (\<open>None\<close> when absent), and
  \<open>analyzeResult\<close> with its \<open>content\<close> and \<open>pages\<close>; of a page only the confidence
  of its words is read.
\<close>

record page =
  word_confidences :: "rat option list option"

record analyze_result =
  content :: "string option"
  pages :: "page list option"

record poll_body =
  status :: "string option"
  error_json :: "string option"
  analyzeResult :: "analyze_result option"

text \<open>What the function does to the outside, in order.\<close>

datatype doc_effect =
    SubmitAnalyze string
  | Sleep nat
  | PollOperation string

text \<open>
  The polling loop \<open>for (let i = 0; i < 30; i++) { ... }\<close>. \<open>replies i\<close> is what the
  poll request of iteration \<open>i\<close> settles to. The result is the thrown error, or the value
  of \<open>result\<close> when the loop is left by \<open>break\<close> or by exhaustion, with the effects.
\<close>

function poll_loop ::
  "string \<Rightarrow> (nat \<Rightarrow> poll_body fetch_result) \<Rightarrow> nat \<Rightarrow> poll_body option \<Rightarrow>
     (js_error + poll_body option) \<times> doc_effect list" where
  "poll_loop loc replies i result =
     (if i < 30 then
        (case replies i of
           FetchRejects m \<Rightarrow> (Inl (Error m), [Sleep 1000, PollOperation loc])
         | Response st txt js \<Rightarrow>
             if \<not> ok st then
               (Inl (Error (''Polling error: '' @ txt)), [Sleep 1000, PollOperation loc])
             else
               (case js of
                  Inl m \<Rightarrow> (Inl (Error m), [Sleep 1000, PollOperation loc])
                | Inr r \<Rightarrow>
                    if status r = Some ''succeeded'' then
                      (Inr (Some r), [Sleep 1000, PollOperation loc])
                    else if status r = Some ''failed'' then
                      (Inl (Error (''Analysis failed: '' @ tmpl (error_json r))),
                       [Sleep 1000, PollOperation loc])
                    else
                      (case poll_loop loc replies (Suc i) (Some r) of
                         (out, effs) \<Rightarrow> (out, Sleep 1000 # PollOperation loc # effs))))
      else (Inr result, []))"
  by pat_completeness auto
termination
  by (relation "measure (\<lambda>(loc, replies, i, result). 30 - i)") auto

declare poll_loop.simps [simp del]

text \<open>What \<open>extractTextFromDocument\<close> returns.\<close>

record extracted =
  ex_content :: string
  pageCount :: nat
  confidence :: "rat option"

text \<open>
  \<open>result.analyzeResult?.pages?.[0]?.words?.[0]?.confidence || null\<close>
\<close>

definition first_confidence :: "poll_body \<Rightarrow> rat option" where
  "first_confidence r =
     (case analyzeResult r of
        None \<Rightarrow> None
      | Some a \<Rightarrow>
          (case pages a of
             Some (p # _) \<Rightarrow>
               (case word_confidences p of
                  Some (Some k # _) \<Rightarrow> (if k = 0 then None else Some k)
                | _ \<Rightarrow> None)
           | _ \<Rightarrow> None))"

definition extract_result :: "poll_body \<Rightarrow> extracted" where
  "extract_result r =
     \<lparr> ex_content =
         (case analyzeResult r of
            None \<Rightarrow> []
          | Some a \<Rightarrow> (case content a of None \<Rightarrow> [] | Some t \<Rightarrow> t)),
       pageCount =
         (case analyzeResult r of
            None \<Rightarrow> 0
          | Some a \<Rightarrow> (case pages a of None \<Rightarrow> 0 | Some ps \<Rightarrow> length ps)),
       confidence = first_confidence r \<rparr>"

text \<open>
  What the submit request settles to: a rejection, or a response with status, body text
  and the \<open>Operation-Location\<close> header.
\<close>

datatype submit_result =
    SubmitRejects string
  | SubmitResponse nat string "string option"

text \<open>
  \<open>extractTextFromDocument(base64Content, mimeType)\<close>; the first two arguments are the
  constants \<open>DOC_INTELLIGENCE_KEY\<close> and the settled submit request.
\<close>

definition extractTextFromDocument ::
  "string option \<Rightarrow> submit_result \<Rightarrow> (nat \<Rightarrow> poll_body fetch_result) \<Rightarrow> string option \<Rightarrow>
     (js_error + extracted) \<times> doc_effect list" where
  "extractTextFromDocument DOC_INTELLIGENCE_KEY submitted replies mimeType =
     (if \<not> truthy DOC_INTELLIGENCE_KEY then
        (Inl (Error ''Document Intelligence not configured''), [])
      else
        (let sent = [SubmitAnalyze (if truthy mimeType then tmpl mimeType else ''application/pdf'')]
         in case submitted of
              SubmitRejects m \<Rightarrow> (Inl (Error m), sent)
            | SubmitResponse st txt operationLocation \<Rightarrow>
                if \<not> ok st then
                  (Inl (Error (''Document Intelligence error '' @ show_nat st @ '': '' @ txt)), sent)
                else
                  (case operationLocation of
                     None \<Rightarrow>
                       (Inl (Error ''No operation location returned from Document Intelligence''), sent)
                   | Some loc \<Rightarrow>
                       if loc = [] then
                         (Inl (Error ''No operation location returned from Document Intelligence''), sent)
                       else
                         (case poll_loop loc replies 0 None of
                            (Inl e, effs) \<Rightarrow> (Inl e, sent @ effs)
                          | (Inr None, effs) \<Rightarrow>
                              (Inl (Error ''Cannot read properties of undefined (reading 'status')''),
                               sent @ effs)
                          | (Inr (Some r), effs) \<Rightarrow>
                              if status r \<noteq> Some ''succeeded'' then
                                (Inl (Error ''Analysis timed out''), sent @ effs)
                              else (Inr (extract_result r), sent @ effs)))))"

text \<open>
  A poll reply after which the loop keeps polling: a successful response whose parsed
  status is neither \<open>succeeded\<close> nor \<open>failed\<close> (queued, running, ...).
\<close>

fun still_running :: "poll_body fetch_result \<Rightarrow> bool" where
  "still_running (FetchRejects m) = False"
| "still_running (Response st txt js) =
     (ok st \<and> (case js of Inl m \<Rightarrow> False
               | Inr r \<Rightarrow> status r \<noteq> Some ''succeeded'' \<and> status r \<noteq> Some ''failed''))"

text \<open>\<open>n\<close> polling rounds: each waits one second, then polls once.\<close>

definition rounds :: "string \<Rightarrow> nat \<Rightarrow> doc_effect list" where
  "rounds loc n = concat (replicate n [Sleep 1000, PollOperation loc])"

section \<open>Combined legal-entity check: run_legal_entity_kyc\<close>

text \<open>
  The provider bodies as far as the handler reads them. Of a GLEIF record: \<open>attributes\<close>
  (a record without it makes \<open>m.attributes.lei\<close> throw), and inside it \<open>lei\<close>,
  \<open>entity\<close> and \<open>registration\<close>; \<open>legalName\<close> stands for
  \<open>entity?.legalName?.name\<close>. Strings are well-formed, so \<open>encodeURIComponent\<close> does
  not throw.
\<close>

record entity =
  legalName :: "string option"
  entity_status :: "string option"
  jurisdiction :: "string option"

record registration =
  registration_status :: "string option"
  nextRenewalDate :: "string option"

record lei_attributes =
  lei :: "string option"
  entity_part :: "entity option"
  registration_part :: "registration option"

record gleif_record =
  attributes :: "lei_attributes option"

record gleif_search_body =
  search_data :: "gleif_record list option"

record lei_body =
  record_data :: "gleif_record option"

record perplexity_body =
  message_content :: "string option"
  citations :: "string list option"

text \<open>What the handler stores under \<open>results.checks\<close>.\<close>

record match_summary =
  ms_lei :: "string option"
  ms_legalName :: "string option"
  ms_status :: "string option"
  ms_jurisdiction :: "string option"

datatype gleif_check =
    GleifCompleted nat "match_summary list"
  | GleifError string

datatype lei_check =
    LeiValid "string option" "string option" "string option" "string option"
  | LeiNotFound
  | LeiError string

datatype media_check =
    MediaCompleted string bool "string list"
  | MediaError string
  | MediaSkipped string

text \<open>The \<open>status\<close> field of each stored check, as the source writes it.\<close>

fun gleif_status :: "gleif_check \<Rightarrow> string" where
  "gleif_status (GleifCompleted n ms) = ''completed''"
| "gleif_status (GleifError m) = ''error''"

fun lei_status :: "lei_check \<Rightarrow> string" where
  "lei_status (LeiValid a b c d) = ''completed''"
| "lei_status LeiNotFound = ''completed''"
| "lei_status (LeiError m) = ''error''"

fun media_status :: "media_check \<Rightarrow> string" where
  "media_status (MediaCompleted t f cs) = ''completed''"
| "media_status (MediaError m) = ''error''"
| "media_status (MediaSkipped m) = ''skipped''"

datatype risk = LOW | MEDIUM | HIGH

datatype kyc_fetch =
    GleifSearchFetch string
  | LeiFetch string
  | PerplexityFetch string

text \<open>
  The \<open>results\<close> object the handler builds and mutates, together with the log of the
  provider requests issued so far (\<open>fetched\<close>, which is not part of the output).
\<close>

record kyc_results =
  companyName :: string
  timestamp :: string
  gleifSearch :: "gleif_check option"
  leiVerification :: "lei_check option"
  adverseMedia :: "media_check option"
  overallRisk :: risk
  riskFactors :: "string list"
  fetched :: "kyc_fetch list"

text \<open>\<open>results.riskFactors.push(f)\<close>\<close>

definition push_factor :: "string \<Rightarrow> kyc_results \<Rightarrow> kyc_results" where
  "push_factor f r = r\<lparr> riskFactors := riskFactors r @ [f] \<rparr>"

definition log_fetch :: "kyc_fetch \<Rightarrow> kyc_results \<Rightarrow> kyc_results" where
  "log_fetch f r = r\<lparr> fetched := fetched r @ [f] \<rparr>"

text \<open>
  \<open>matches.map((m) => ({ lei: m.attributes.lei, ... }))\<close>: throws at the first record
  without \<open>attributes\<close>.
\<close>

fun map_matches :: "gleif_record list \<Rightarrow> js_error + match_summary list" where
  "map_matches [] = Inr []"
| "map_matches (m # ms) =
     (case attributes m of
        None \<Rightarrow> Inl (Error ''Cannot read properties of undefined (reading 'lei')'')
      | Some a \<Rightarrow>
          (case map_matches ms of
             Inl e \<Rightarrow> Inl e
           | Inr rest \<Rightarrow>
               Inr (\<lparr> ms_lei = lei a,
                      ms_legalName = (case entity_part a of None \<Rightarrow> None | Some e \<Rightarrow> legalName e),
                      ms_status = (case entity_part a of None \<Rightarrow> None | Some e \<Rightarrow> entity_status e),
                      ms_jurisdiction = (case entity_part a of None \<Rightarrow> None | Some e \<Rightarrow> jurisdiction e) \<rparr>
                    # rest)))"

text \<open>Step 1: GLEIF search.\<close>

definition gleif_step :: "gleif_search_body fetch_result \<Rightarrow> kyc_results \<Rightarrow> kyc_results" where
  "gleif_step reply r0 =
     (let r = log_fetch (GleifSearchFetch (companyName r0)) r0 in
      case reply of
        FetchRejects m \<Rightarrow> r\<lparr> gleifSearch := Some (GleifError m) \<rparr>
      | Response st txt js \<Rightarrow>
          if ok st then
            (case js of
               Inl m \<Rightarrow> r\<lparr> gleifSearch := Some (GleifError m) \<rparr>
             | Inr gleifData \<Rightarrow>
                 (let matches = (case search_data gleifData of None \<Rightarrow> [] | Some ms \<Rightarrow> ms) in
                  case map_matches matches of
                    Inl (Error m) \<Rightarrow> r\<lparr> gleifSearch := Some (GleifError m) \<rparr>
                  | Inr summaries \<Rightarrow>
                      (let r' = r\<lparr> gleifSearch := Some (GleifCompleted (length matches) summaries) \<rparr>
                       in if length matches = 0
                          then push_factor ''Company not found in GLEIF registry'' r'
                          else r')))
          else r\<lparr> gleifSearch := Some (GleifError (''HTTP '' @ show_nat st)) \<rparr>)"

text \<open>Step 2: LEI verification, only \<open>if (leiCode)\<close>.\<close>

definition lei_step :: "string option \<Rightarrow> lei_body fetch_result \<Rightarrow> kyc_results \<Rightarrow> kyc_results" where
  "lei_step leiCode reply r0 =
     (if truthy leiCode then
        (let r = log_fetch (LeiFetch (tmpl leiCode)) r0 in
         case reply of
           FetchRejects m \<Rightarrow> r\<lparr> leiVerification := Some (LeiError m) \<rparr>
         | Response st txt js \<Rightarrow>
             if ok st then
               (case js of
                  Inl m \<Rightarrow> r\<lparr> leiVerification := Some (LeiError m) \<rparr>
                | Inr leiData \<Rightarrow>
                    (case record_data leiData of
                       None \<Rightarrow>
                         r\<lparr> leiVerification := Some (LeiError
                              ''Cannot read properties of undefined (reading 'attributes')'') \<rparr>
                     | Some d \<Rightarrow>
                         (case attributes d of
                            None \<Rightarrow>
                              r\<lparr> leiVerification := Some (LeiError
                                   ''Cannot read properties of undefined (reading 'entity')'') \<rparr>
                          | Some a \<Rightarrow>
                              (let reg_status =
                                     (case registration_part a of None \<Rightarrow> None
                                      | Some g \<Rightarrow> registration_status g);
                                   r' = r\<lparr> leiVerification := Some (LeiValid
                                          (case entity_part a of None \<Rightarrow> None | Some e \<Rightarrow> legalName e)
                                          (case entity_part a of None \<Rightarrow> None | Some e \<Rightarrow> entity_status e)
                                          reg_status
                                          (case registration_part a of None \<Rightarrow> None
                                           | Some g \<Rightarrow> nextRenewalDate g)) \<rparr>
                               in if reg_status \<noteq> Some ''ISSUED''
                                  then push_factor (''LEI registration status: '' @ tmpl reg_status) r'
                                  else r'))))
             else if st = 404 then
               push_factor ''Provided LEI not found in GLEIF database''
                 (r\<lparr> leiVerification := Some LeiNotFound \<rparr>)
             else r\<lparr> leiVerification := Some (LeiError (''HTTP '' @ show_nat st)) \<rparr>)
      else r0)"

text \<open>\<open>String.prototype.toLowerCase\<close> on ASCII letters, and \<open>includes\<close>.\<close>

definition lower_char :: "char \<Rightarrow> char" where
  "lower_char ch =
     (case map_of (zip ''ABCDEFGHIJKLMNOPQRSTUVWXYZ'' ''abcdefghijklmnopqrstuvwxyz'') ch of
        None \<Rightarrow> ch
      | Some l \<Rightarrow> l)"

definition toLowerCase :: "string \<Rightarrow> string" where
  "toLowerCase t = map lower_char t"

fun str_includes :: "string \<Rightarrow> string \<Rightarrow> bool" where
  "str_includes [] sub = (sub = [])"
| "str_includes (ch # t) sub = (take (length sub) (ch # t) = sub \<or> str_includes t sub)"

text \<open>Step 3: adverse media screening, only \<open>if (PERPLEXITY_API_KEY)\<close>.\<close>

definition media_step ::
  "string option \<Rightarrow> perplexity_body fetch_result \<Rightarrow> kyc_results \<Rightarrow> kyc_results" where
  "media_step PERPLEXITY_API_KEY reply r0 =
     (if truthy PERPLEXITY_API_KEY then
        (let r = log_fetch (PerplexityFetch (companyName r0)) r0 in
         case reply of
           FetchRejects m \<Rightarrow> r\<lparr> adverseMedia := Some (MediaError m) \<rparr>
         | Response st txt js \<Rightarrow>
             if ok st then
               (case js of
                  Inl m \<Rightarrow> r\<lparr> adverseMedia := Some (MediaError m) \<rparr>
                | Inr perplexityData \<Rightarrow>
                    (let screening = (case message_content perplexityData of None \<Rightarrow> [] | Some t \<Rightarrow> t);
                         lowerScreening = toLowerCase screening;
                         hasRedFlags =
                           (str_includes lowerScreening ''sanction'' \<or>
                            str_includes lowerScreening ''fraud'' \<or>
                            str_includes lowerScreening ''money laundering'' \<or>
                            str_includes lowerScreening ''convicted'');
                         r' = r\<lparr> adverseMedia := Some (MediaCompleted screening hasRedFlags
                                (case citations perplexityData of None \<Rightarrow> [] | Some cs \<Rightarrow> cs)) \<rparr>
                     in if hasRedFlags then push_factor ''Adverse media findings detected'' r'
                        else r'))
             else r\<lparr> adverseMedia := Some (MediaError (''HTTP '' @ show_nat st)) \<rparr>)
      else r0\<lparr> adverseMedia := Some (MediaSkipped ''Perplexity API key not configured'') \<rparr>)"

text \<open>\<open>// Calculate overall risk\<close>\<close>

definition calculate_risk :: "kyc_results \<Rightarrow> kyc_results" where
  "calculate_risk r =
     r\<lparr> overallRisk :=
          (if length (riskFactors r) \<ge> 3 then HIGH
           else if length (riskFactors r) \<ge> 1 then MEDIUM
           else LOW) \<rparr>"

text \<open>What the environment supplies to one run: the clock text and the three replies.\<close>

record kyc_env =
  now_iso :: string
  gleif_reply :: "gleif_search_body fetch_result"
  lei_reply :: "lei_body fetch_result"
  perplexity_reply :: "perplexity_body fetch_result"

text \<open>The initial \<open>results\<close> object of one run.\<close>

definition kyc_initial :: "kyc_env \<Rightarrow> string \<Rightarrow> kyc_results" where
  "kyc_initial env name =
     \<lparr> companyName = name, timestamp = now_iso env,
       gleifSearch = None, leiVerification = None, adverseMedia = None,
       overallRisk = LOW, riskFactors = [], fetched = [] \<rparr>"

text \<open>
  The handler of \<open>run_legal_entity_kyc\<close>; the first argument is the constant
  \<open>PERPLEXITY_API_KEY\<close>. It returns the envelope
  \<open>JSON.stringify(results, null, 2)\<close>; the model returns \<open>results\<close>.
\<close>

definition run_legal_entity_kyc ::
  "string option \<Rightarrow> kyc_env \<Rightarrow> string \<Rightarrow> string option \<Rightarrow> kyc_results" where
  "run_legal_entity_kyc PERPLEXITY_API_KEY env name leiCode =
     calculate_risk
       (media_step PERPLEXITY_API_KEY (perplexity_reply env)
          (lei_step leiCode (lei_reply env)
             (gleif_step (gleif_reply env) (kyc_initial env name))))"

text \<open>
  The overall level as the specification words it: a function of the number of
  distinct risk factors.
\<close>

definition risk_level :: "nat \<Rightarrow> risk" where
  "risk_level n = (if n = 0 then LOW else if 1 \<le> n \<and> n \<le> 2 then MEDIUM else HIGH)"

text \<open>
  The risk factors a recorded check result accounts for: a completed check accounts
  for at most one, anything else (an error, a skip, no record) for none.
\<close>

fun gleif_factors :: "gleif_check option \<Rightarrow> string list" where
  "gleif_factors (Some (GleifCompleted n ms)) =
     (if n = 0 then [''Company not found in GLEIF registry''] else [])"
| "gleif_factors (Some (GleifError m)) = []"
| "gleif_factors None = []"

fun lei_factors :: "lei_check option \<Rightarrow> string list" where
  "lei_factors (Some (LeiValid nm es rs nr)) =
     (if rs \<noteq> Some ''ISSUED'' then [''LEI registration status: '' @ tmpl rs] else [])"
| "lei_factors (Some LeiNotFound) = [''Provided LEI not found in GLEIF database'']"
| "lei_factors (Some (LeiError m)) = []"
| "lei_factors None = []"

fun media_factors :: "media_check option \<Rightarrow> string list" where
  "media_factors (Some (MediaCompleted t flags cs)) =
     (if flags then [''Adverse media findings detected''] else [])"
| "media_factors (Some (MediaError m)) = []"
| "media_factors (Some (MediaSkipped m)) = []"
| "media_factors None = []"

section \<open>Express application: session registry and routes\<close>

text \<open>The environment constants the routes read.\<close>

record config =
  API_KEY :: "string option"
  DATAVERSE_URL :: "string option"
  DATAVERSE_CLIENT_ID :: "string option"
  DATAVERSE_CLIENT_SECRET :: "string option"
  DOC_INTELLIGENCE_KEY :: "string option"

text \<open>
  A transport object with its \<open>sessionId\<close> property, and the module-level map
  \<open>streamableTransports\<close> from session identifiers to transports.
\<close>

record transport =
  sessionId :: "string option"

type_synonym registry = "string \<rightharpoonup> transport"

text \<open>
  The JSON bodies the routes write: the authentication error, the JSON-RPC error
  (\<open>jsonrpc: "2.0"\<close>, \<open>id: null\<close>) with its code and message, the health report
  (status, timestamp, secured, dataverseConfigured, docIntelligenceConfigured), the two
  answers of the Dataverse probe (its duration is not modelled), the static server
  description (name, version), and the initialize result written by the SDK transport.
\<close>

datatype resp_body =
    AuthError string string
  | JsonRpcError int string
  | Health string string bool bool bool
  | DataverseTestOk "string option"
  | DataverseTestFailed string
  | ServerInfo string string
  | InitializeResult

record http_response =
  status_code :: nat
  headers :: "(string \<times> string) list"
  payload :: resp_body

text \<open>
  What a route does with a request: it answers itself, or it hands the request to the
  transport of an existing session (\<open>transport.handleRequest(req, res, ...)\<close>), whose
  answer is the SDK's. What the transport does then, closing the session included (which
  removes the registry entry through \<open>onclose\<close>), is not modelled.
\<close>

datatype served =
    Answered http_response
  | HandledByTransport transport

definition bad_request :: "string \<Rightarrow> http_response" where
  "bad_request msg = \<lparr> status_code = 400, headers = [], payload = JsonRpcError (- 32000) msg \<rparr>"

text \<open>\<open>sessionId && streamableTransports.has(sessionId)\<close>, with the transport found.\<close>

definition known_session :: "registry \<Rightarrow> string option \<Rightarrow> transport option" where
  "known_session reg sid = (case sid of None \<Rightarrow> None | Some k \<Rightarrow> if k = [] then None else reg k)"

text \<open>
  Modelled from the spec: \<open>StreamableHTTPServerTransport.handleRequest\<close> of the package
  \<open>@modelcontextprotocol/sdk\<close>, which is not among the repository's sources, on a fresh
  transport that receives an initialize request. The specification says that such a
  request "allocates and returns a new session identifier (via a response header),
  establishes Active state": the transport takes the identifier from its
  \<open>sessionIdGenerator\<close>, calls \<open>onsessioninitialized\<close> with it, and answers with the
  identifier in the \<open>mcp-session-id\<close> header.
\<close>

definition sdk_handle_initialize ::
  "string \<Rightarrow> (string \<Rightarrow> transport \<Rightarrow> registry \<Rightarrow> registry) \<Rightarrow> registry \<Rightarrow> http_response \<times> registry" where
  "sdk_handle_initialize generated onsessioninitialized reg =
     (\<lparr> status_code = 200, headers = [(''mcp-session-id'', generated)], payload = InitializeResult \<rparr>,
      onsessioninitialized generated \<lparr> sessionId = Some generated \<rparr> reg)"

text \<open>
  The handler of \<open>app.post("/mcp", ...)\<close>. \<open>isInitializeRequest\<close> is the SDK's
  predicate on the parsed body; \<open>uuid\<close> is what \<open>crypto.randomUUID()\<close> returns when the
  new transport asks for an identifier. The callback given to the transport is
  \<open>streamableTransports.set(newSessionId, transport)\<close>. The \<open>catch\<close> block
  (answer 500) is reached only when an SDK call throws, which the SDK as modelled above
  does not do.
\<close>

definition post_mcp ::
  "('b \<Rightarrow> bool) \<Rightarrow> string \<Rightarrow> 'b request \<Rightarrow> registry \<Rightarrow> served \<times> registry" where
  "post_mcp isInitializeRequest uuid req reg =
     (case known_session reg (mcp_session_id req) of
        Some t \<Rightarrow> (HandledByTransport t, reg)
      | None \<Rightarrow>
          if \<not> truthy (mcp_session_id req) \<and> isInitializeRequest (body req) then
            (case sdk_handle_initialize uuid (\<lambda>newSessionId t r. r(newSessionId \<mapsto> t)) reg of
               (answer, reg') \<Rightarrow> (Answered answer, reg'))
          else (Answered (bad_request ''Bad Request: No valid session ID provided''), reg))"

text \<open>The handlers of \<open>app.get("/mcp", ...)\<close> and \<open>app.delete("/mcp", ...)\<close>.\<close>

definition get_mcp :: "'b request \<Rightarrow> registry \<Rightarrow> served" where
  "get_mcp req reg =
     (case known_session reg (mcp_session_id req) of
        None \<Rightarrow> Answered (bad_request ''Bad Request: Invalid or missing session ID'')
      | Some t \<Rightarrow> HandledByTransport t)"

definition delete_mcp :: "'b request \<Rightarrow> registry \<Rightarrow> served" where
  "delete_mcp req reg =
     (case known_session reg (mcp_session_id req) of
        None \<Rightarrow> Answered (bad_request ''Bad Request: Invalid or missing session ID'')
      | Some t \<Rightarrow> HandledByTransport t)"

text \<open>The handler of \<open>app.get("/health", ...)\<close>; \<open>now\<close> is \<open>new Date().toISOString()\<close>.\<close>

definition get_health :: "config \<Rightarrow> string \<Rightarrow> http_response" where
  "get_health cfg now =
     \<lparr> status_code = 200, headers = [],
       payload = Health ''healthy'' now (truthy (API_KEY cfg))
         (truthy (DATAVERSE_CLIENT_ID cfg) \<and> truthy (DATAVERSE_CLIENT_SECRET cfg))
         (truthy (DOC_INTELLIGENCE_KEY cfg)) \<rparr>"

text \<open>The handler of \<open>app.get("/", ...)\<close>.\<close>

definition get_root :: http_response where
  "get_root = \<lparr> status_code = 200, headers = [], payload = ServerInfo ''KYC MCP Server'' ''1.0.0'' \<rparr>"

text \<open>The handler of \<open>app.get("/test-dataverse", ...)\<close>.\<close>

definition get_test_dataverse ::
  "config \<Rightarrow> 'a dataverse_env \<Rightarrow> token_cache \<Rightarrow> http_response \<times> token_cache" where
  "get_test_dataverse cfg env c =
     (case callDataverse ''cr_kyccustomers?$top=1'' ''GET'' (None :: unit option) env c of
        (Inr result, c', issued) \<Rightarrow>
          (\<lparr> status_code = 200, headers = [], payload = DataverseTestOk (DATAVERSE_URL cfg) \<rparr>, c')
      | (Inl (Error m), c', issued) \<Rightarrow>
          (\<lparr> status_code = 500, headers = [], payload = DataverseTestFailed m \<rparr>, c'))"

text \<open>
  The routes as registered, and whether \<open>validateApiKey\<close> is among the middleware of
  each registration.
\<close>

datatype route = GetHealth | GetTestDataverse | PostMcp | GetMcp | DeleteMcp | GetRoot

fun uses_validateApiKey :: "route \<Rightarrow> bool" where
  "uses_validateApiKey GetHealth = False"
| "uses_validateApiKey GetTestDataverse = True"
| "uses_validateApiKey PostMcp = True"
| "uses_validateApiKey GetMcp = True"
| "uses_validateApiKey DeleteMcp = True"
| "uses_validateApiKey GetRoot = False"

record server_state =
  streamableTransports :: registry
  token_slot :: token_cache

record 'a server_env =
  clock_iso :: string
  random_uuid :: string
  dataverse_part :: "'a dataverse_env"

fun handle_route ::
  "config \<Rightarrow> ('b \<Rightarrow> bool) \<Rightarrow> 'a server_env \<Rightarrow> route \<Rightarrow> 'b request \<Rightarrow> server_state \<Rightarrow>
     served \<times> server_state" where
  "handle_route cfg isInit env GetHealth req st = (Answered (get_health cfg (clock_iso env)), st)"
| "handle_route cfg isInit env GetTestDataverse req st =
     (case get_test_dataverse cfg (dataverse_part env) (token_slot st) of
        (answer, c') \<Rightarrow> (Answered answer, st\<lparr> token_slot := c' \<rparr>))"
| "handle_route cfg isInit env PostMcp req st =
     (case post_mcp isInit (random_uuid env) req (streamableTransports st) of
        (out, reg') \<Rightarrow> (out, st\<lparr> streamableTransports := reg' \<rparr>))"
| "handle_route cfg isInit env GetMcp req st = (get_mcp req (streamableTransports st), st)"
| "handle_route cfg isInit env DeleteMcp req st = (delete_mcp req (streamableTransports st), st)"
| "handle_route cfg isInit env GetRoot req st = (Answered get_root, st)"

text \<open>
  One request through the application: the middleware of the route, then its handler.
  The body has been parsed by \<open>express.json()\<close> where the route uses it.
\<close>

definition serve ::
  "config \<Rightarrow> ('b \<Rightarrow> bool) \<Rightarrow> 'a server_env \<Rightarrow> route \<Rightarrow> 'b request \<Rightarrow> server_state \<Rightarrow>
     served \<times> server_state" where
  "serve cfg isInit env rt req st =
     (if uses_validateApiKey rt then
        (case validateApiKey (API_KEY cfg) req of
           Rejected code err msg \<Rightarrow>
             (Answered \<lparr> status_code = code, headers = [], payload = AuthError err msg \<rparr>, st)
         | Next \<Rightarrow> handle_route cfg isInit env rt req st)
      else handle_route cfg isInit env rt req st)"

section \<open>Properties of the authentication middleware\<close>

lemma replace_first_Bearer: "replace_first ''Bearer '' '''' (''Bearer '' @ k) = k"
  by simp

text \<open>
  C7 (as the code has it). With no secret configured every request is accepted. With a
  configured (non-empty) secret the three carriers are read in the order \<open>x-api-key\<close>
  header, \<open>authorization\<close> header with the first occurrence of \<open>Bearer \<close> removed,
  \<open>api_key\<close> query parameter, and the first non-empty one alone decides: the request is
  accepted when that value is exactly the configured secret and rejected with 403
  otherwise, whatever the later carriers hold; a request in which all three are absent
  or empty is rejected with 401. This holds for every request.
\<close>

theorem validateApiKey_first_carrier_decides:
  "(\<not> truthy apiKey \<longrightarrow> validateApiKey apiKey req = Next) \<and>
   (key \<noteq> [] \<and> truthy (x_api_key req) \<longrightarrow>
      validateApiKey (Some key) req =
        (if x_api_key req = Some key then Next
         else Rejected 403 ''Forbidden'' ''Invalid API key'')) \<and>
   (key \<noteq> [] \<and> \<not> truthy (x_api_key req) \<and>
      truthy (map_option (replace_first ''Bearer '' '''') (authorization req)) \<longrightarrow>
      validateApiKey (Some key) req =
        (if map_option (replace_first ''Bearer '' '''') (authorization req) = Some key then Next
         else Rejected 403 ''Forbidden'' ''Invalid API key'')) \<and>
   (key \<noteq> [] \<and> \<not> truthy (x_api_key req) \<and>
      \<not> truthy (map_option (replace_first ''Bearer '' '''') (authorization req)) \<and>
      js_truthy (query_api_key req) \<longrightarrow>
      validateApiKey (Some key) req =
        (if query_api_key req = Str key then Next
         else Rejected 403 ''Forbidden'' ''Invalid API key'')) \<and>
   (key \<noteq> [] \<and> \<not> truthy (x_api_key req) \<and>
      \<not> truthy (map_option (replace_first ''Bearer '' '''') (authorization req)) \<and>
      \<not> js_truthy (query_api_key req) \<longrightarrow>
      validateApiKey (Some key) req =
        Rejected 401 ''Unauthorized''
          ''API key required. Provide via x-api-key header, Authorization: Bearer header, or api_key query parameter'')"
proof (intro conjI impI)
  assume "\<not> truthy apiKey"
  then show "validateApiKey apiKey req = Next"
    by (auto simp: truthy_def validateApiKey_def split: option.splits)
next
  assume "key \<noteq> [] \<and> truthy (x_api_key req)"
  then show "validateApiKey (Some key) req =
        (if x_api_key req = Some key then Next
         else Rejected 403 ''Forbidden'' ''Invalid API key'')"
    by (cases "x_api_key req")
      (simp_all add: validateApiKey_def providedKey_def js_or_def of_header_def truthy_def)
next
  assume "key \<noteq> [] \<and> \<not> truthy (x_api_key req) \<and>
      truthy (map_option (replace_first ''Bearer '' '''') (authorization req))"
  then show "validateApiKey (Some key) req =
        (if map_option (replace_first ''Bearer '' '''') (authorization req) = Some key then Next
         else Rejected 403 ''Forbidden'' ''Invalid API key'')"
    by (cases "x_api_key req"; cases "authorization req")
      (auto simp: validateApiKey_def providedKey_def js_or_def of_header_def truthy_def)
next
  assume "key \<noteq> [] \<and> \<not> truthy (x_api_key req) \<and>
      \<not> truthy (map_option (replace_first ''Bearer '' '''') (authorization req)) \<and>
      js_truthy (query_api_key req)"
  then show "validateApiKey (Some key) req =
        (if query_api_key req = Str key then Next
         else Rejected 403 ''Forbidden'' ''Invalid API key'')"
    by (cases "x_api_key req"; cases "authorization req")
      (auto simp: validateApiKey_def providedKey_def js_or_def of_header_def truthy_def)
next
  assume "key \<noteq> [] \<and> \<not> truthy (x_api_key req) \<and>
      \<not> truthy (map_option (replace_first ''Bearer '' '''') (authorization req)) \<and>
      \<not> js_truthy (query_api_key req)"
  then show "validateApiKey (Some key) req =
        Rejected 401 ''Unauthorized''
          ''API key required. Provide via x-api-key header, Authorization: Bearer header, or api_key query parameter''"
    by (cases "x_api_key req"; cases "authorization req")
      (auto simp: validateApiKey_def providedKey_def js_or_def of_header_def truthy_def)
qed

theorem validateApiKey_first_carrier_decides_witness:
  "validateApiKey None
      \<lparr>x_api_key = None, authorization = None, query_api_key = Undefined,
        mcp_session_id = None, body = ()\<rparr> = Next \<and>
   validateApiKey (Some ''abc123'')
      \<lparr>x_api_key = Some ''abc123'', authorization = None, query_api_key = Undefined,
        mcp_session_id = None, body = ()\<rparr> = Next \<and>
   validateApiKey (Some ''abc123'')
      \<lparr>x_api_key = Some ''xyz'', authorization = None, query_api_key = Undefined,
        mcp_session_id = None, body = ()\<rparr> = Rejected 403 ''Forbidden'' ''Invalid API key'' \<and>
   validateApiKey (Some ''abc123'')
      \<lparr>x_api_key = None, authorization = Some ''Bearer abc123'', query_api_key = Undefined,
        mcp_session_id = None, body = ()\<rparr> = Next \<and>
   validateApiKey (Some ''abc123'')
      \<lparr>x_api_key = None, authorization = None, query_api_key = Str ''abc123'',
        mcp_session_id = None, body = ()\<rparr> = Next \<and>
   validateApiKey (Some ''abc123'')
      \<lparr>x_api_key = None, authorization = None, query_api_key = Undefined,
        mcp_session_id = None, body = ()\<rparr>
     = Rejected 401 ''Unauthorized''
         ''API key required. Provide via x-api-key header, Authorization: Bearer header, or api_key query parameter''"
  using validateApiKey_first_carrier_decides [of None
      "\<lparr>x_api_key = None, authorization = None, query_api_key = Undefined,
        mcp_session_id = None, body = ()\<rparr>" "''abc123''"]
    validateApiKey_first_carrier_decides [of None
      "\<lparr>x_api_key = Some ''abc123'', authorization = None, query_api_key = Undefined,
        mcp_session_id = None, body = ()\<rparr>" "''abc123''"]
    validateApiKey_first_carrier_decides [of None
      "\<lparr>x_api_key = Some ''xyz'', authorization = None, query_api_key = Undefined,
        mcp_session_id = None, body = ()\<rparr>" "''abc123''"]
    validateApiKey_first_carrier_decides [of None
      "\<lparr>x_api_key = None, authorization = Some ''Bearer abc123'', query_api_key = Undefined,
        mcp_session_id = None, body = ()\<rparr>" "''abc123''"]
    validateApiKey_first_carrier_decides [of None
      "\<lparr>x_api_key = None, authorization = None, query_api_key = Str ''abc123'',
        mcp_session_id = None, body = ()\<rparr>" "''abc123''"]
  by (simp add: truthy_def)

text \<open>
  C7 as stated fails when the carriers disagree. A request whose authorization header
  carries the exact configured secret is rejected with 403 when its \<open>x-api-key\<close> header
  holds another value; a request whose query parameter carries a wrong secret is
  accepted when its \<open>x-api-key\<close> header holds the configured one.
\<close>

theorem validateApiKey_mixed_carriers_counterexample:
  "validateApiKey (Some ''abc123'')
      \<lparr>x_api_key = Some ''xyz'', authorization = Some ''Bearer abc123'',
        query_api_key = Undefined, mcp_session_id = None, body = ()\<rparr>
     = Rejected 403 ''Forbidden'' ''Invalid API key'' \<and>
   validateApiKey (Some ''abc123'')
      \<lparr>x_api_key = Some ''abc123'', authorization = None,
        query_api_key = Str ''xyz'', mcp_session_id = None, body = ()\<rparr>
     = Next"
  by (simp add: validateApiKey_def providedKey_def js_or_def of_header_def)

section \<open>Properties of the credential cache\<close>

text \<open>
  C8. A call made while a (non-empty) token is cached whose expiry lies more than five
  minutes (300000 ms) after the current clock returns the cached token, issues no
  token-exchange call and leaves the cache as it was.
\<close>

theorem getDataverseToken_cached:
  assumes "truthy (dataverseToken c)" and "tokenExpiry c = Some e"
    and "now_check env + 300000 < e"
  shows "getDataverseToken env c = (Inr (dataverseToken c), c, 0)"
  using assms by (simp add: getDataverseToken_def cache_valid_def)

theorem getDataverseToken_cached_witness:
  "truthy (dataverseToken \<lparr>dataverseToken = Some ''tok'', tokenExpiry = Some 1000000\<rparr>) \<and>
   (600000::int) + 300000 < 1000000 \<and>
   getDataverseToken \<lparr>now_check = 600000, token_reply = FetchRejects ''unreachable'', now_store = 600001\<rparr>
       \<lparr>dataverseToken = Some ''tok'', tokenExpiry = Some 1000000\<rparr>
     = (Inr (Some ''tok''), \<lparr>dataverseToken = Some ''tok'', tokenExpiry = Some 1000000\<rparr>, 0)"
  using getDataverseToken_cached [of "\<lparr>dataverseToken = Some ''tok'', tokenExpiry = Some 1000000\<rparr>" 1000000
      "\<lparr>now_check = 600000, token_reply = FetchRejects ''unreachable'', now_store = 600001\<rparr>"]
  by (simp add: truthy_def)

section \<open>Properties of the update handler\<close>

text \<open>
  C9. When \<open>customerId\<close> is missing or empty, when \<open>status\<close> is missing or zero, or
  when \<open>status\<close> lies outside 1..4, \<open>update_customer_status\<close> returns an explanatory
  text, issues no HTTP call at all (so no write to the record store) and leaves the
  credential cache as it was.
\<close>

theorem update_customer_status_validation:
  assumes "\<not> truthy customerId \<or> statusArg = None \<or> statusArg = Some 0 \<or>
           (\<exists>st. statusArg = Some st \<and> (st < 1 \<or> st > 4))"
  shows "update_customer_status customerId statusArg env c =
           (Inr (TextResult ''customerId and status are required''), c, []) \<or>
         update_customer_status customerId statusArg env c =
           (Inr (TextResult
              ''status must be 1 (Pending), 2 (Under Review), 3 (Approved), or 4 (Rejected)''), c, [])"
  using assms
  by (cases customerId; cases statusArg) (auto simp: update_customer_status_def truthy_def)

theorem update_customer_status_validation_witness:
  "(\<exists>st. Some (7::rat) = Some st \<and> (st < 1 \<or> st > 4)) \<and>
   (update_customer_status (Some ''c-1'') (Some 7)
      \<lparr>token_part = \<lparr>now_check = 0, token_reply = FetchRejects [], now_store = 0\<rparr>,
        api_reply = Response 200 [] (Inr ())\<rparr> initial_cache
      :: (js_error + unit tool_result) \<times> token_cache \<times> rat http_call list) =
     (Inr (TextResult
        ''status must be 1 (Pending), 2 (Under Review), 3 (Approved), or 4 (Rejected)''),
      initial_cache, []) \<and>
   (update_customer_status None (Some 2)
      \<lparr>token_part = \<lparr>now_check = 0, token_reply = FetchRejects [], now_store = 0\<rparr>,
        api_reply = Response 200 [] (Inr ())\<rparr> initial_cache
      :: (js_error + unit tool_result) \<times> token_cache \<times> rat http_call list) =
     (Inr (TextResult ''customerId and status are required''), initial_cache, [])"
  using update_customer_status_validation [of "Some ''c-1''" "Some 7"
      "\<lparr>token_part = \<lparr>now_check = 0, token_reply = FetchRejects [], now_store = 0\<rparr>,
        api_reply = Response 200 [] (Inr ())\<rparr>" initial_cache]
    update_customer_status_validation [of None "Some 2"
      "\<lparr>token_part = \<lparr>now_check = 0, token_reply = FetchRejects [], now_store = 0\<rparr>,
        api_reply = Response 200 [] (Inr ())\<rparr>" initial_cache]
  by (simp add: update_customer_status_def truthy_def)

section \<open>Properties of the polling loop\<close>

lemma rounds_Suc: "rounds loc (Suc n) = Sleep 1000 # PollOperation loc # rounds loc n"
  by (simp add: rounds_def)

lemma rounds_0: "rounds loc 0 = []"
  by (simp add: rounds_def)

lemma still_runningE:
  assumes "still_running rp"
  obtains st tx r where "rp = Response st tx (Inr r)" "ok st"
    "status r \<noteq> Some ''succeeded''" "status r \<noteq> Some ''failed''"
  using assms by (cases rp) (auto split: sum.splits)

lemma poll_loop_succeeds:
  assumes "k < 30" "i \<le> k" "\<forall>j. i \<le> j \<and> j < k \<longrightarrow> still_running (replies j)"
    "replies k = Response st tx (Inr r)" "ok st" "status r = Some ''succeeded''"
  shows "poll_loop loc replies i res = (Inr (Some r), rounds loc (Suc k - i))"
  using assms
proof (induction "k - i" arbitrary: i res)
  case 0
  then have "i = k" by simp
  with 0 show ?case by (simp add: poll_loop.simps [of loc replies k] rounds_Suc rounds_0)
next
  case (Suc d)
  then have lt: "i < k" and run: "still_running (replies i)" by auto
  from run obtain st' tx' r' where rp: "replies i = Response st' tx' (Inr r')" "ok st'"
    "status r' \<noteq> Some ''succeeded''" "status r' \<noteq> Some ''failed''"
    by (rule still_runningE)
  have ih: "poll_loop loc replies (Suc i) (Some r') = (Inr (Some r), rounds loc (Suc k - Suc i))"
    using Suc by (intro Suc.hyps(1)) auto
  have "Suc k - i = Suc (Suc k - Suc i)" using lt by simp
  with ih rp lt Suc.prems(1) show ?case
    by (simp add: poll_loop.simps [of loc replies i] rounds_Suc)
qed

lemma poll_loop_fails:
  assumes "k < 30" "i \<le> k" "\<forall>j. i \<le> j \<and> j < k \<longrightarrow> still_running (replies j)"
    "replies k = Response st tx (Inr r)" "ok st" "status r = Some ''failed''"
  shows "poll_loop loc replies i res =
    (Inl (Error (''Analysis failed: '' @ tmpl (error_json r))), rounds loc (Suc k - i))"
  using assms
proof (induction "k - i" arbitrary: i res)
  case 0
  then have "i = k" by simp
  with 0 show ?case by (simp add: poll_loop.simps [of loc replies k] rounds_Suc rounds_0)
next
  case (Suc d)
  then have lt: "i < k" and run: "still_running (replies i)" by auto
  from run obtain st' tx' r' where rp: "replies i = Response st' tx' (Inr r')" "ok st'"
    "status r' \<noteq> Some ''succeeded''" "status r' \<noteq> Some ''failed''"
    by (rule still_runningE)
  have ih: "poll_loop loc replies (Suc i) (Some r') =
      (Inl (Error (''Analysis failed: '' @ tmpl (error_json r))), rounds loc (Suc k - Suc i))"
    using Suc by (intro Suc.hyps(1)) auto
  have "Suc k - i = Suc (Suc k - Suc i)" using lt by simp
  with ih rp lt Suc.prems(1) show ?case
    by (simp add: poll_loop.simps [of loc replies i] rounds_Suc)
qed

lemma poll_loop_exhausts:
  assumes "i < 30" "\<forall>j. i \<le> j \<and> j < 30 \<longrightarrow> still_running (replies j)"
  shows "\<exists>r. poll_loop loc replies i res = (Inr (Some r), rounds loc (30 - i)) \<and>
             status r \<noteq> Some ''succeeded''"
  using assms
proof (induction "29 - i" arbitrary: i res)
  case 0
  then have i: "i = 29" by simp
  from 0 have "still_running (replies 29)" by simp
  then obtain st' tx' r' where rp: "replies 29 = Response st' tx' (Inr r')" "ok st'"
    "status r' \<noteq> Some ''succeeded''" "status r' \<noteq> Some ''failed''"
    by (rule still_runningE)
  show ?case unfolding i
    using rp by (simp add: poll_loop.simps [of loc replies 29] poll_loop.simps [of loc replies 30]
        rounds_Suc rounds_0)
next
  case (Suc d)
  then have lt: "i < 29" and run: "still_running (replies i)" by auto
  from run obtain st' tx' r' where rp: "replies i = Response st' tx' (Inr r')" "ok st'"
    "status r' \<noteq> Some ''succeeded''" "status r' \<noteq> Some ''failed''"
    by (rule still_runningE)
  have "\<exists>r. poll_loop loc replies (Suc i) (Some r') = (Inr (Some r), rounds loc (30 - Suc i)) \<and>
             status r \<noteq> Some ''succeeded''"
    using Suc by (intro Suc.hyps(1)) auto
  then obtain r where ih: "poll_loop loc replies (Suc i) (Some r') = (Inr (Some r), rounds loc (30 - Suc i))"
    "status r \<noteq> Some ''succeeded''" by blast
  have "30 - i = Suc (30 - Suc i)" using lt by simp
  with ih rp lt show ?case
    by (simp add: poll_loop.simps [of loc replies i] rounds_Suc)
qed

lemma poll_loop_bounded:
  "\<exists>n. n \<le> 30 - i \<and> snd (poll_loop loc replies i res) = rounds loc n"
proof (induction loc replies i res rule: poll_loop.induct)
  case (1 loc replies i result)
  show ?case
  proof (cases "i < 30")
    case False
    then show ?thesis by (auto simp: poll_loop.simps [of loc replies i] rounds_0 intro: exI [of _ 0])
  next
    case True
    have one: "[Sleep 1000, PollOperation loc] = rounds loc 1" by (simp add: rounds_def)
    show ?thesis
    proof (cases "still_running (replies i)")
      case False
      with True have "snd (poll_loop loc replies i result) = rounds loc 1"
        by (cases "replies i")
          (auto simp: poll_loop.simps [of loc replies i] one split: sum.splits)
      with True show ?thesis by (intro exI [of _ 1]) simp
    next
      case run: True
      then obtain st' tx' r' where rp: "replies i = Response st' tx' (Inr r')" "ok st'"
        "status r' \<noteq> Some ''succeeded''" "status r' \<noteq> Some ''failed''"
        by (rule still_runningE)
      from "1.IH" [OF True rp(1) _ _ _ _ ] rp
      obtain n where n: "n \<le> 30 - Suc i" "snd (poll_loop loc replies (Suc i) (Some r')) = rounds loc n"
        by auto
      with rp True have "snd (poll_loop loc replies i result) = rounds loc (Suc n)"
        by (cases "poll_loop loc replies (Suc i) (Some r')")
          (simp add: poll_loop.simps [of loc replies i] rounds_Suc)
      with n True show ?thesis by (intro exI [of _ "Suc n"]) simp
    qed
  qed
qed


text \<open>
  C2. Once the analysis is submitted, \<open>extractTextFromDocument\<close> polls in rounds of a
  one-second wait followed by one poll, at most 30 rounds. If the poll of round
  \<open>k + 1\<close> reports \<open>succeeded\<close> (all earlier ones still running), the extracted result
  is returned after exactly \<open>k + 1\<close> rounds; if it reports \<open>failed\<close>, an error is
  thrown after exactly \<open>k + 1\<close> rounds; if all 30 polls report a status that is neither,
  the error \<open>Analysis timed out\<close> is thrown after exactly 30 rounds.
\<close>

theorem extractTextFromDocument_polling:
  assumes "truthy KEY" and "ok sst" and "loc \<noteq> []"
  shows
    "(\<exists>n \<le> 30. snd (extractTextFromDocument KEY (SubmitResponse sst stxt (Some loc)) replies mime)
         = SubmitAnalyze (if truthy mime then tmpl mime else ''application/pdf'') # rounds loc n) \<and>
     (k < 30 \<and> (\<forall>j < k. still_running (replies j)) \<and>
        replies k = Response st ptxt (Inr r) \<and> ok st \<and> status r = Some ''succeeded'' \<longrightarrow>
      extractTextFromDocument KEY (SubmitResponse sst stxt (Some loc)) replies mime
        = (Inr (extract_result r),
           SubmitAnalyze (if truthy mime then tmpl mime else ''application/pdf'')
             # rounds loc (Suc k))) \<and>
     (k < 30 \<and> (\<forall>j < k. still_running (replies j)) \<and>
        replies k = Response st ptxt (Inr r) \<and> ok st \<and> status r = Some ''failed'' \<longrightarrow>
      extractTextFromDocument KEY (SubmitResponse sst stxt (Some loc)) replies mime
        = (Inl (Error (''Analysis failed: '' @ tmpl (error_json r))),
           SubmitAnalyze (if truthy mime then tmpl mime else ''application/pdf'')
             # rounds loc (Suc k))) \<and>
     ((\<forall>j < 30. still_running (replies j)) \<longrightarrow>
      extractTextFromDocument KEY (SubmitResponse sst stxt (Some loc)) replies mime
        = (Inl (Error ''Analysis timed out''),
           SubmitAnalyze (if truthy mime then tmpl mime else ''application/pdf'')
             # rounds loc 30))"
proof (intro conjI impI)
  from poll_loop_bounded [of 0 loc replies None]
  obtain n where n: "n \<le> 30" "snd (poll_loop loc replies 0 None) = rounds loc n" by auto
  from n(2) assms
  have "snd (extractTextFromDocument KEY (SubmitResponse sst stxt (Some loc)) replies mime)
         = SubmitAnalyze (if truthy mime then tmpl mime else ''application/pdf'') # rounds loc n"
    by (cases "poll_loop loc replies 0 None")
      (auto simp: extractTextFromDocument_def Let_def split: sum.splits option.splits)
  with n(1)
  show "\<exists>n \<le> 30. snd (extractTextFromDocument KEY (SubmitResponse sst stxt (Some loc)) replies mime)
         = SubmitAnalyze (if truthy mime then tmpl mime else ''application/pdf'') # rounds loc n"
    by blast
next
  assume a: "k < 30 \<and> (\<forall>j < k. still_running (replies j)) \<and>
        replies k = Response st ptxt (Inr r) \<and> ok st \<and> status r = Some ''succeeded''"
  then have "poll_loop loc replies 0 None = (Inr (Some r), rounds loc (Suc k - 0))"
    by (intro poll_loop_succeeds [where st = st and tx = ptxt]) auto
  with a assms
  show "extractTextFromDocument KEY (SubmitResponse sst stxt (Some loc)) replies mime
        = (Inr (extract_result r),
           SubmitAnalyze (if truthy mime then tmpl mime else ''application/pdf'')
             # rounds loc (Suc k))"
    by (simp add: extractTextFromDocument_def Let_def)
next
  assume a: "k < 30 \<and> (\<forall>j < k. still_running (replies j)) \<and>
        replies k = Response st ptxt (Inr r) \<and> ok st \<and> status r = Some ''failed''"
  then have "poll_loop loc replies 0 None =
      (Inl (Error (''Analysis failed: '' @ tmpl (error_json r))), rounds loc (Suc k - 0))"
    by (intro poll_loop_fails [where st = st and tx = ptxt]) auto
  with a assms
  show "extractTextFromDocument KEY (SubmitResponse sst stxt (Some loc)) replies mime
        = (Inl (Error (''Analysis failed: '' @ tmpl (error_json r))),
           SubmitAnalyze (if truthy mime then tmpl mime else ''application/pdf'')
             # rounds loc (Suc k))"
    by (simp add: extractTextFromDocument_def Let_def)
next
  assume a: "\<forall>j < 30. still_running (replies j)"
  then have "\<exists>r. poll_loop loc replies 0 None = (Inr (Some r), rounds loc (30 - 0)) \<and>
             status r \<noteq> Some ''succeeded''"
    by (intro poll_loop_exhausts) auto
  then obtain r where "poll_loop loc replies 0 None = (Inr (Some r), rounds loc 30)"
    "status r \<noteq> Some ''succeeded''" by auto
  with assms
  show "extractTextFromDocument KEY (SubmitResponse sst stxt (Some loc)) replies mime
        = (Inl (Error ''Analysis timed out''),
           SubmitAnalyze (if truthy mime then tmpl mime else ''application/pdf'')
             # rounds loc 30)"
    by (simp add: extractTextFromDocument_def Let_def)
qed

theorem extractTextFromDocument_polling_witness:
  "extractTextFromDocument (Some ''key'') (SubmitResponse 202 [] (Some ''op-1''))
      (\<lambda>j. if j < 4 then Response 200 [] (Inr \<lparr>status = Some ''running'', error_json = None, analyzeResult = None\<rparr>)
           else Response 200 []
             (Inr \<lparr>status = Some ''succeeded'', error_json = None,
                   analyzeResult = Some \<lparr>content = Some ''text'', pages = Some []\<rparr>\<rparr>)) None
     = (Inr \<lparr>ex_content = ''text'', pageCount = 0, confidence = None\<rparr>,
        SubmitAnalyze ''application/pdf'' # rounds ''op-1'' 5) \<and>
   extractTextFromDocument (Some ''key'') (SubmitResponse 202 [] (Some ''op-1''))
      (\<lambda>j. Response 200 [] (Inr \<lparr>status = Some ''failed'', error_json = Some ''{}'', analyzeResult = None\<rparr>))
      None
     = (Inl (Error ''Analysis failed: {}''), SubmitAnalyze ''application/pdf'' # rounds ''op-1'' 1) \<and>
   extractTextFromDocument (Some ''key'') (SubmitResponse 202 [] (Some ''op-1''))
      (\<lambda>j. Response 200 [] (Inr \<lparr>status = Some ''running'', error_json = None, analyzeResult = None\<rparr>))
      None
     = (Inl (Error ''Analysis timed out''), SubmitAnalyze ''application/pdf'' # rounds ''op-1'' 30)"
  using extractTextFromDocument_polling [where KEY = "Some ''key''" and sst = 202 and loc = "''op-1''"
      and stxt = "[]" and mime = None and k = 4 and st = 200 and ptxt = "[]"
      and r = "\<lparr>status = Some ''succeeded'', error_json = None,
                   analyzeResult = Some \<lparr>content = Some ''text'', pages = Some []\<rparr>\<rparr>"
      and replies = "\<lambda>j. if j < 4 then Response 200 [] (Inr \<lparr>status = Some ''running'', error_json = None, analyzeResult = None\<rparr>)
           else Response 200 []
             (Inr \<lparr>status = Some ''succeeded'', error_json = None,
                   analyzeResult = Some \<lparr>content = Some ''text'', pages = Some []\<rparr>\<rparr>)"]
    extractTextFromDocument_polling [where KEY = "Some ''key''" and sst = 202 and loc = "''op-1''"
      and stxt = "[]" and mime = None and k = 0 and st = 200 and ptxt = "[]"
      and r = "\<lparr>status = Some ''failed'', error_json = Some ''{}'', analyzeResult = None\<rparr>"
      and replies = "\<lambda>j. Response 200 [] (Inr \<lparr>status = Some ''failed'', error_json = Some ''{}'', analyzeResult = None\<rparr>)"]
    extractTextFromDocument_polling [where KEY = "Some ''key''" and sst = 202 and loc = "''op-1''"
      and stxt = "[]" and mime = None and k = 0 and st = 200 and ptxt = "[]"
      and r = "\<lparr>status = Some ''running'', error_json = None, analyzeResult = None\<rparr>"
      and replies = "\<lambda>j. Response 200 [] (Inr \<lparr>status = Some ''running'', error_json = None, analyzeResult = None\<rparr>)"]
  by (simp add: truthy_def ok_def extract_result_def first_confidence_def tmpl_def)

section \<open>Properties of the credential cache under interleaving\<close>

lemma token_step_Invoke_length [simp]: "length (calls (token_step (Invoke i now) s)) = length (calls s)"
  by (simp add: set_call_def)

lemma token_step_Invoke_miss:
  assumes "i < length (calls s)" "calls s ! i = Idle" "\<not> cache_valid (cache s) now"
  shows "token_step (Invoke i now) s =
           s\<lparr> calls := (calls s)[i := AwaitFetch], exchanges := Suc (exchanges s) \<rparr>"
  using assms by (simp add: set_call_def)

lemma token_run_invokes_other:
  "i \<notin> fst ` set ivs \<Longrightarrow> calls (token_run (invokes ivs) s) ! i = calls s ! i"
proof (induction ivs arbitrary: s)
  case Nil
  then show ?case by (simp add: invokes_def)
next
  case (Cons p ivs)
  obtain j now where p: "p = (j, now)" by (cases p)
  with Cons.prems have ne: "i \<noteq> j" and rest: "i \<notin> fst ` set ivs" by auto
  have "calls (token_step (Invoke j now) s) ! i = calls s ! i"
    using ne by (simp add: set_call_def)
  with Cons.IH [OF rest, of "token_step (Invoke j now) s"] p show ?case
    by (simp add: invokes_def)
qed

text \<open>
  C1 (as the code has it). There is no in-flight coalescing: when the callers of a
  schedule are all idle, pairwise different, and none of them finds a valid cached token
  at its clock value, then invoking them one after another before anything settles
  issues one token-exchange call per caller, leaves the cache untouched, and leaves every
  caller waiting for the reply to its own exchange.
\<close>

theorem getDataverseToken_one_exchange_per_caller:
  assumes "distinct (map fst ivs)"
    and "\<forall>(i, now) \<in> set ivs. i < length (calls s) \<and> calls s ! i = Idle \<and> \<not> cache_valid (cache s) now"
  shows "exchanges (token_run (invokes ivs) s) = exchanges s + length ivs \<and>
         cache (token_run (invokes ivs) s) = cache s \<and>
         (\<forall>(i, now) \<in> set ivs. calls (token_run (invokes ivs) s) ! i = AwaitFetch)"
  using assms
proof (induction ivs arbitrary: s)
  case Nil
  then show ?case by (simp add: invokes_def)
next
  case (Cons p ivs)
  obtain j now where p: "p = (j, now)" by (cases p)
  let ?s = "token_step (Invoke j now) s"
  from Cons.prems p have j: "j < length (calls s)" "calls s ! j = Idle" "\<not> cache_valid (cache s) now"
    by auto
  then have step: "?s = s\<lparr> calls := (calls s)[j := AwaitFetch], exchanges := Suc (exchanges s) \<rparr>"
    by (rule token_step_Invoke_miss)
  from Cons.prems p have fresh: "j \<notin> fst ` set ivs" and d: "distinct (map fst ivs)" by auto
  have pre: "\<forall>(i, now) \<in> set ivs. i < length (calls ?s) \<and> calls ?s ! i = Idle \<and> \<not> cache_valid (cache ?s) now"
  proof (clarify)
    fix i t assume it: "(i, t) \<in> set ivs"
    with fresh have "i \<noteq> j" by force
    moreover from it Cons.prems(2) have "i < length (calls s) \<and> calls s ! i = Idle \<and> \<not> cache_valid (cache s) t"
      by auto
    ultimately show "i < length (calls ?s) \<and> calls ?s ! i = Idle \<and> \<not> cache_valid (cache ?s) t"
      unfolding step by simp
  qed
  from Cons.IH [OF d pre]
  have ih: "exchanges (token_run (invokes ivs) ?s) = exchanges ?s + length ivs"
    "cache (token_run (invokes ivs) ?s) = cache ?s"
    "\<forall>(i, now) \<in> set ivs. calls (token_run (invokes ivs) ?s) ! i = AwaitFetch"
    by auto
  have run: "token_run (invokes (p # ivs)) s = token_run (invokes ivs) ?s"
    by (simp add: invokes_def p)
  have "calls (token_run (invokes ivs) ?s) ! j = calls ?s ! j"
    using fresh by (rule token_run_invokes_other)
  also have "\<dots> = AwaitFetch" unfolding step using j by simp
  finally have jj: "calls (token_run (invokes ivs) ?s) ! j = AwaitFetch" .
  show ?case unfolding run using ih jj unfolding step by (auto simp: p)
qed

theorem getDataverseToken_one_exchange_per_caller_witness:
  "distinct (map fst [(0::nat, 1000::int), (1, 1000)]) \<and>
   exchanges (token_run (invokes [(0, 1000), (1, 1000)]) (token_system_init initial_cache 2)) = 2 \<and>
   calls (token_run (invokes [(0, 1000), (1, 1000)]) (token_system_init initial_cache 2))
     = [AwaitFetch, AwaitFetch] \<and>
   cache (token_run (invokes [(0, 1000), (1, 1000)]) (token_system_init initial_cache 2))
     = initial_cache"
  using getDataverseToken_one_exchange_per_caller
    [of "[(0, 1000), (1, 1000)]" "token_system_init initial_cache 2"]
  by (simp add: token_system_init_def initial_cache_def cache_valid_def truthy_def set_call_def
      invokes_def numeral_2_eq_2)

text \<open>
  C1 as stated fails: two callers that both start while no token is cached issue two
  token-exchange calls, and each returns the token of its own exchange, so the two
  callers may hold different tokens.
\<close>

theorem getDataverseToken_concurrent_counterexample:
  "exchanges (token_run
      [Invoke 0 1000, Invoke 1 1000,
       FetchSettles 0 (Response 200 [] (Inr \<lparr>access_token = Some ''tokA'', expires_in = Some 3600\<rparr>)),
       FetchSettles 1 (Response 200 [] (Inr \<lparr>access_token = Some ''tokB'', expires_in = Some 3600\<rparr>)),
       BodySettles 0 1200, BodySettles 1 1300]
      (token_system_init initial_cache 2)) = 2 \<and>
   calls (token_run
      [Invoke 0 1000, Invoke 1 1000,
       FetchSettles 0 (Response 200 [] (Inr \<lparr>access_token = Some ''tokA'', expires_in = Some 3600\<rparr>)),
       FetchSettles 1 (Response 200 [] (Inr \<lparr>access_token = Some ''tokB'', expires_in = Some 3600\<rparr>)),
       BodySettles 0 1200, BodySettles 1 1300]
      (token_system_init initial_cache 2)) = [Returned (Some ''tokA''), Returned (Some ''tokB'')]"
  by (simp add: token_system_init_def initial_cache_def cache_valid_def truthy_def set_call_def ok_def
      numeral_2_eq_2)

text \<open>
  The function run alone is the interleaved one with a single caller: both models agree.
\<close>

lemma getDataverseToken_as_steps:
  "token_run [Invoke 0 (now_check env), FetchSettles 0 (token_reply env), BodySettles 0 (now_store env)]
      (token_system_init c 1) =
   (case getDataverseToken env c of
      (out, c', n) \<Rightarrow>
        \<lparr> cache = c', calls = [case out of Inl e \<Rightarrow> Thrown e | Inr t \<Rightarrow> Returned t], exchanges = n \<rparr>)"
  by (cases "token_reply env")
    (auto simp: getDataverseToken_def token_system_init_def set_call_def split: sum.splits)


text \<open>
  Under interleaving too, a caller that starts while a valid token is cached returns it
  at once, without an exchange.
\<close>

lemma token_step_cached:
  assumes "i < length (calls s)" "calls s ! i = Idle" "cache_valid (cache s) now"
  shows "token_step (Invoke i now) s = set_call i (Returned (dataverseToken (cache s))) s"
  using assms by simp

section \<open>Properties of the tool dispatcher\<close>

text \<open>
  The handlers of \<open>update_customer_status\<close> and \<open>get_kyc_summary\<close> have no
  \<open>catch\<close> of their own: taken alone, each lets the error of \<open>callDataverse\<close>
  (or a TypeError) out.
\<close>

lemma handlers_without_catch_throw:
  "(update_customer_status (Some ''c-1'') (Some 3)
      \<lparr>token_part = \<lparr>now_check = 0,
          token_reply = Response 200 [] (Inr \<lparr>access_token = Some ''tok'', expires_in = Some 3600\<rparr>),
          now_store = 5\<rparr>,
        api_reply = Response 404 ''not found'' (Inl ''Unexpected token'')\<rparr> initial_cache
      :: (js_error + unit tool_result) \<times> token_cache \<times> rat http_call list) =
     (Inl (Error ''Dataverse API error 404: not found''),
      \<lparr>dataverseToken = Some ''tok'', tokenExpiry = Some 3600005\<rparr>,
      [TokenExchange, DataverseRequest ''PATCH'' ''cr_kyccustomers(c-1)'' (Some 3) ''Bearer tok'']) \<and>
   get_kyc_summary
      \<lparr>token_part = \<lparr>now_check = 0,
          token_reply = Response 200 [] (Inr \<lparr>access_token = Some ''tok'', expires_in = Some 3600\<rparr>),
          now_store = 5\<rparr>,
        api_reply = Response 200 ''{}'' (Inr \<lparr>value_field = None\<rparr>)\<rparr> initial_cache =
     (Inl (Error ''Cannot read properties of undefined (reading 'length')''),
      \<lparr>dataverseToken = Some ''tok'', tokenExpiry = Some 3600005\<rparr>,
      [TokenExchange,
       DataverseRequest ''GET'' ''cr_kyccustomers?$select=cr_kyccustomerid,cr_status'' None ''Bearer tok''])"
  by (simp add: update_customer_status_def get_kyc_summary_def callDataverse_def getDataverseToken_def
      initial_cache_def cache_valid_def truthy_def ok_def tmpl_def show_nat.simps digit_char_def)

lemma update_customer_status_dataverse_error:
  assumes "customerId = Some cid" "cid \<noteq> []" "statusArg = Some sv" "1 \<le> sv" "sv \<le> 4"
    and "fst (getDataverseToken (token_part env) c) = Inr tok"
    and "api_reply env = Response st body_text js" "\<not> ok st"
  shows "fst (update_customer_status customerId statusArg env c) =
           Inl (Error (''Dataverse API error '' @ show_nat st @ '': '' @ body_text))"
proof -
  obtain c' n where "getDataverseToken (token_part env) c = (Inr tok, c', n)"
    using assms(6) by (cases "getDataverseToken (token_part env) c") auto
  with assms show ?thesis
    by (auto simp: update_customer_status_def callDataverse_def Let_def)
qed

text \<open>
  C4. Through the dispatcher every tool invocation yields an envelope: an error thrown
  by the handler becomes the text of the envelope. For \<open>update_customer_status\<close> and
  \<open>get_kyc_summary\<close>, whose handlers do not catch: the invocation of
  \<open>update_customer_status\<close> always yields a text envelope; whenever either handler
  throws, the envelope carries the error's message; and when the record store answers a
  valid update with a non-success status, the envelope reads
  \<open>Dataverse API error <status>: <body>\<close>.
\<close>

theorem tool_call_converts_handler_errors:
  "tool_call (Inl (Error m)) = (TextResult m :: 'j tool_result) \<and>
   (\<exists>t. fst (call_update_customer_status customerId statusArg env c
              :: 'j tool_result \<times> token_cache \<times> rat http_call list) = TextResult t) \<and>
   (fst (update_customer_status customerId statusArg env c
           :: (js_error + 'j tool_result) \<times> token_cache \<times> rat http_call list) = Inl (Error m) \<longrightarrow>
      fst (call_update_customer_status customerId statusArg env c
             :: 'j tool_result \<times> token_cache \<times> rat http_call list) = TextResult m) \<and>
   (fst (get_kyc_summary env' c') = Inl (Error m) \<longrightarrow>
      fst (call_get_kyc_summary env' c') = TextResult m) \<and>
   (customerId = Some cid \<and> cid \<noteq> [] \<and> statusArg = Some sv \<and> 1 \<le> sv \<and> sv \<le> 4 \<and>
      fst (getDataverseToken (token_part env) c) = Inr tok \<and>
      api_reply env = Response st body_text js \<and> \<not> ok st \<longrightarrow>
      fst (call_update_customer_status customerId statusArg env c
             :: 'j tool_result \<times> token_cache \<times> rat http_call list)
        = TextResult (''Dataverse API error '' @ show_nat st @ '': '' @ body_text))"
proof (intro conjI impI)
  show "tool_call (Inl (Error m)) = (TextResult m :: 'j tool_result)"
    by (simp add: tool_call_def)
next
  obtain out cc issued where
    u: "(update_customer_status customerId statusArg env c
          :: (js_error + 'j tool_result) \<times> token_cache \<times> rat http_call list) = (out, cc, issued)"
    by (cases "update_customer_status customerId statusArg env c
          :: (js_error + 'j tool_result) \<times> token_cache \<times> rat http_call list") auto
  have "\<exists>t. tool_call out = TextResult t"
  proof (cases out)
    case (Inl e)
    then show ?thesis by (cases e) (simp add: tool_call_def)
  next
    case (Inr r)
    with u have "\<exists>t. r = TextResult t"
      by (auto simp: update_customer_status_def split: option.splits if_splits prod.splits sum.splits)
    with Inr show ?thesis by (auto simp: tool_call_def)
  qed
  with u show "\<exists>t. fst (call_update_customer_status customerId statusArg env c
              :: 'j tool_result \<times> token_cache \<times> rat http_call list) = TextResult t"
    by (simp add: call_update_customer_status_def)
next
  assume "fst (update_customer_status customerId statusArg env c
           :: (js_error + 'j tool_result) \<times> token_cache \<times> rat http_call list) = Inl (Error m)"
  then show "fst (call_update_customer_status customerId statusArg env c
             :: 'j tool_result \<times> token_cache \<times> rat http_call list) = TextResult m"
    by (cases "update_customer_status customerId statusArg env c
          :: (js_error + 'j tool_result) \<times> token_cache \<times> rat http_call list")
      (simp add: call_update_customer_status_def tool_call_def)
next
  assume "fst (get_kyc_summary env' c') = Inl (Error m)"
  then show "fst (call_get_kyc_summary env' c') = TextResult m"
    by (cases "get_kyc_summary env' c'") (simp add: call_get_kyc_summary_def tool_call_def)
next
  assume a: "customerId = Some cid \<and> cid \<noteq> [] \<and> statusArg = Some sv \<and> 1 \<le> sv \<and> sv \<le> 4 \<and>
      fst (getDataverseToken (token_part env) c) = Inr tok \<and>
      api_reply env = Response st body_text js \<and> \<not> ok st"
  then have "fst (update_customer_status customerId statusArg env c
           :: (js_error + 'j tool_result) \<times> token_cache \<times> rat http_call list) =
           Inl (Error (''Dataverse API error '' @ show_nat st @ '': '' @ body_text))"
    by (intro update_customer_status_dataverse_error [where tok = tok and js = js]) auto
  then show "fst (call_update_customer_status customerId statusArg env c
             :: 'j tool_result \<times> token_cache \<times> rat http_call list)
        = TextResult (''Dataverse API error '' @ show_nat st @ '': '' @ body_text)"
    by (cases "update_customer_status customerId statusArg env c
          :: (js_error + 'j tool_result) \<times> token_cache \<times> rat http_call list")
      (simp add: call_update_customer_status_def tool_call_def)
qed

theorem tool_call_converts_handler_errors_witness:
  "(call_update_customer_status (Some ''c-1'') (Some 3)
      \<lparr>token_part = \<lparr>now_check = 0,
          token_reply = Response 200 [] (Inr \<lparr>access_token = Some ''tok'', expires_in = Some 3600\<rparr>),
          now_store = 5\<rparr>,
        api_reply = Response 404 ''not found'' (Inl ''Unexpected token'')\<rparr> initial_cache
      :: unit tool_result \<times> token_cache \<times> rat http_call list) =
     (TextResult ''Dataverse API error 404: not found'',
      \<lparr>dataverseToken = Some ''tok'', tokenExpiry = Some 3600005\<rparr>,
      [TokenExchange, DataverseRequest ''PATCH'' ''cr_kyccustomers(c-1)'' (Some 3) ''Bearer tok'']) \<and>
   fst (call_get_kyc_summary
      \<lparr>token_part = \<lparr>now_check = 0,
          token_reply = Response 200 [] (Inr \<lparr>access_token = Some ''tok'', expires_in = Some 3600\<rparr>),
          now_store = 5\<rparr>,
        api_reply = Response 200 ''{}'' (Inr \<lparr>value_field = None\<rparr>)\<rparr> initial_cache) =
     TextResult ''Cannot read properties of undefined (reading 'length')''"
  using tool_call_converts_handler_errors [where customerId = "Some ''c-1''" and statusArg = "Some 3"
      and cid = "''c-1''" and sv = 3 and tok = "Some ''tok''" and st = 404
      and body_text = "''not found''" and js = "Inl ''Unexpected token''"
      and m = "''Cannot read properties of undefined (reading 'length')''"
      and c = initial_cache and c' = initial_cache
      and env = "\<lparr>token_part = \<lparr>now_check = 0,
          token_reply = Response 200 [] (Inr \<lparr>access_token = Some ''tok'', expires_in = Some 3600\<rparr>),
          now_store = 5\<rparr>,
        api_reply = Response 404 ''not found'' (Inl ''Unexpected token'') :: unit fetch_result\<rparr>"
      and env' = "\<lparr>token_part = \<lparr>now_check = 0,
          token_reply = Response 200 [] (Inr \<lparr>access_token = Some ''tok'', expires_in = Some 3600\<rparr>),
          now_store = 5\<rparr>,
        api_reply = Response 200 ''{}'' (Inr \<lparr>value_field = None\<rparr>)\<rparr>"]
  by (simp add: call_update_customer_status_def call_get_kyc_summary_def tool_call_def
      update_customer_status_def get_kyc_summary_def callDataverse_def getDataverseToken_def
      initial_cache_def cache_valid_def truthy_def ok_def tmpl_def show_nat.simps digit_char_def)

section \<open>Properties of the combined legal-entity check\<close>

lemmas kyc_step_defs = Let_def push_factor_def log_fetch_def

lemma gleif_step_frame:
  "fetched (gleif_step reply r) = fetched r @ [GleifSearchFetch (companyName r)] \<and>
   companyName (gleif_step reply r) = companyName r \<and>
   leiVerification (gleif_step reply r) = leiVerification r \<and>
   adverseMedia (gleif_step reply r) = adverseMedia r"
  by (cases reply)
    (auto simp: gleif_step_def kyc_step_defs split: sum.splits js_error.splits)

lemma gleif_step_check:
  "\<exists>g. gleifSearch (gleif_step reply r) = Some g \<and>
     (gleif_status g = ''error'' \<and> riskFactors (gleif_step reply r) = riskFactors r \<or>
      gleif_status g = ''completed'' \<and>
        (riskFactors (gleif_step reply r) = riskFactors r \<or>
         riskFactors (gleif_step reply r) = riskFactors r @ [''Company not found in GLEIF registry'']))"
  by (cases reply)
    (auto simp: gleif_step_def kyc_step_defs split: sum.splits js_error.splits)

lemma lei_step_frame:
  "fetched (lei_step code reply r) =
     fetched r @ (if truthy code then [LeiFetch (tmpl code)] else []) \<and>
   companyName (lei_step code reply r) = companyName r \<and>
   gleifSearch (lei_step code reply r) = gleifSearch r \<and>
   adverseMedia (lei_step code reply r) = adverseMedia r"
  by (cases reply)
    (auto simp: lei_step_def kyc_step_defs split: sum.splits option.splits)

lemma lei_step_absent:
  "\<not> truthy code \<Longrightarrow> lei_step code reply r = r"
  by (simp add: lei_step_def)

lemma lei_step_check:
  "truthy code \<Longrightarrow>
   \<exists>l. leiVerification (lei_step code reply r) = Some l \<and>
     (lei_status l = ''error'' \<and> riskFactors (lei_step code reply r) = riskFactors r \<or>
      lei_status l = ''completed'' \<and>
        (riskFactors (lei_step code reply r) = riskFactors r \<or>
         (\<exists>t. riskFactors (lei_step code reply r) = riskFactors r @ [''LEI registration status: '' @ t]) \<or>
         riskFactors (lei_step code reply r) =
           riskFactors r @ [''Provided LEI not found in GLEIF database'']))"
  by (cases reply)
    (auto simp: lei_step_def kyc_step_defs split: sum.splits option.splits)

lemma media_step_frame:
  "fetched (media_step key reply r) =
     fetched r @ (if truthy key then [PerplexityFetch (companyName r)] else []) \<and>
   companyName (media_step key reply r) = companyName r \<and>
   gleifSearch (media_step key reply r) = gleifSearch r \<and>
   leiVerification (media_step key reply r) = leiVerification r"
  by (cases reply)
    (auto simp: media_step_def kyc_step_defs split: sum.splits)

lemma media_step_check:
  "\<exists>m. adverseMedia (media_step key reply r) = Some m \<and>
     (media_status m = ''skipped'' \<and> \<not> truthy key \<and>
        riskFactors (media_step key reply r) = riskFactors r \<or>
      media_status m = ''error'' \<and> truthy key \<and>
        riskFactors (media_step key reply r) = riskFactors r \<or>
      media_status m = ''completed'' \<and> truthy key \<and>
        (riskFactors (media_step key reply r) = riskFactors r \<or>
         riskFactors (media_step key reply r) = riskFactors r @ [''Adverse media findings detected'']))"
  by (cases reply)
    (auto simp: media_step_def kyc_step_defs split: sum.splits)

lemma calculate_risk_frame:
  "fetched (calculate_risk r) = fetched r \<and> riskFactors (calculate_risk r) = riskFactors r \<and>
   gleifSearch (calculate_risk r) = gleifSearch r \<and>
   leiVerification (calculate_risk r) = leiVerification r \<and>
   adverseMedia (calculate_risk r) = adverseMedia r"
  by (simp add: calculate_risk_def)

lemma gleif_step_factors:
  "riskFactors (gleif_step reply r) = riskFactors r \<or>
   riskFactors (gleif_step reply r) = riskFactors r @ [''Company not found in GLEIF registry'']"
  by (cases reply)
    (auto simp: gleif_step_def Let_def push_factor_def log_fetch_def split: sum.splits js_error.splits)

lemma lei_step_factors:
  "riskFactors (lei_step code reply r) = riskFactors r \<or>
   (\<exists>t. riskFactors (lei_step code reply r) = riskFactors r @ [''LEI registration status: '' @ t]) \<or>
   riskFactors (lei_step code reply r) = riskFactors r @ [''Provided LEI not found in GLEIF database'']"
  by (cases reply)
    (auto simp: lei_step_def Let_def push_factor_def log_fetch_def split: sum.splits option.splits)

lemma media_step_factors:
  "riskFactors (media_step key reply r) = riskFactors r \<or>
   riskFactors (media_step key reply r) = riskFactors r @ [''Adverse media findings detected'']"
  by (cases reply)
    (auto simp: media_step_def Let_def push_factor_def log_fetch_def split: sum.splits)

lemma calculate_risk_level:
  "overallRisk (calculate_risk r) = risk_level (length (riskFactors r))"
  by (cases "riskFactors r") (auto simp: calculate_risk_def risk_level_def)


lemma run_legal_entity_kyc_distinct:
  "distinct (riskFactors (run_legal_entity_kyc key env name code))"
  using gleif_step_factors [of "gleif_reply env" "kyc_initial env name"]
    lei_step_factors [of code "lei_reply env" "gleif_step (gleif_reply env) (kyc_initial env name)"]
    media_step_factors [of key "perplexity_reply env"
      "lei_step code (lei_reply env) (gleif_step (gleif_reply env) (kyc_initial env name))"]
  by (auto simp: run_legal_entity_kyc_def calculate_risk_def kyc_initial_def)

text \<open>
  C3. The overall risk level of every run is the specification's function of the number
  of distinct risk factors: LOW for 0, MEDIUM for 1 or 2, HIGH for 3 or more. The
  factors of a run are pairwise distinct, so that number is the length of the list the
  code tests; nothing else about the checks enters.
\<close>

theorem run_legal_entity_kyc_risk_level:
  "overallRisk (run_legal_entity_kyc key env name code) =
     risk_level (card (set (riskFactors (run_legal_entity_kyc key env name code)))) \<and>
   distinct (riskFactors (run_legal_entity_kyc key env name code))"
proof -
  have "card (set (riskFactors (run_legal_entity_kyc key env name code))) =
        length (riskFactors (run_legal_entity_kyc key env name code))"
    using run_legal_entity_kyc_distinct by (rule distinct_card)
  moreover have "overallRisk (run_legal_entity_kyc key env name code) =
        risk_level (length (riskFactors (run_legal_entity_kyc key env name code)))"
    unfolding run_legal_entity_kyc_def calculate_risk_level by (simp add: calculate_risk_def)
  ultimately show ?thesis using run_legal_entity_kyc_distinct by simp
qed

theorem run_legal_entity_kyc_risk_level_witness:
  "overallRisk (run_legal_entity_kyc (Some ''pk'')
      \<lparr>now_iso = ''2026-01-01T00:00:00.000Z'',
        gleif_reply = Response 200 [] (Inr \<lparr>search_data = None\<rparr>),
        lei_reply = Response 404 [] (Inl ''no body''),
        perplexity_reply = Response 200 []
          (Inr \<lparr>message_content = Some ''Known FRAUD case'', citations = None\<rparr>)\<rparr>
      ''Acme'' (Some ''X1'')) = HIGH \<and>
   riskFactors (run_legal_entity_kyc (Some ''pk'')
      \<lparr>now_iso = ''2026-01-01T00:00:00.000Z'',
        gleif_reply = Response 200 [] (Inr \<lparr>search_data = None\<rparr>),
        lei_reply = Response 404 [] (Inl ''no body''),
        perplexity_reply = Response 200 []
          (Inr \<lparr>message_content = Some ''Known FRAUD case'', citations = None\<rparr>)\<rparr>
      ''Acme'' (Some ''X1'')) =
     [''Company not found in GLEIF registry'', ''Provided LEI not found in GLEIF database'',
      ''Adverse media findings detected'']"
  using run_legal_entity_kyc_risk_level [of "Some ''pk''"
      "\<lparr>now_iso = ''2026-01-01T00:00:00.000Z'',
        gleif_reply = Response 200 [] (Inr \<lparr>search_data = None\<rparr>),
        lei_reply = Response 404 [] (Inl ''no body''),
        perplexity_reply = Response 200 []
          (Inr \<lparr>message_content = Some ''Known FRAUD case'', citations = None\<rparr>)\<rparr>"
      "''Acme''" "Some ''X1''"]
  by (simp add: run_legal_entity_kyc_def kyc_initial_def gleif_step_def lei_step_def media_step_def
      calculate_risk_def push_factor_def log_fetch_def truthy_def ok_def tmpl_def
      toLowerCase_def lower_char_def risk_level_def)

lemma gleif_step_exact:
  "riskFactors (gleif_step reply r) =
     riskFactors r @ gleif_factors (gleifSearch (gleif_step reply r))"
  by (cases reply)
    (auto simp: gleif_step_def kyc_step_defs split: sum.splits js_error.splits)

lemma lei_step_exact:
  "truthy code \<Longrightarrow>
   riskFactors (lei_step code reply r) =
     riskFactors r @ lei_factors (leiVerification (lei_step code reply r))"
  by (cases reply)
    (auto simp: lei_step_def kyc_step_defs split: sum.splits option.splits)

lemma media_step_exact:
  "riskFactors (media_step key reply r) =
     riskFactors r @ media_factors (adverseMedia (media_step key reply r))"
  by (cases reply)
    (auto simp: media_step_def kyc_step_defs split: sum.splits)

lemma gleif_factors_error: "gleif_status g = ''error'' \<Longrightarrow> gleif_factors (Some g) = []"
  by (cases g) simp_all

lemma lei_factors_error: "lei_status l = ''error'' \<Longrightarrow> lei_factors (Some l) = []"
  by (cases l) simp_all

lemma media_factors_not_completed:
  "media_status m \<noteq> ''completed'' \<Longrightarrow> media_factors (Some m) = []"
  by (cases m) simp_all

text \<open>
  C6 (as the code has it). The GLEIF search always runs first; the LEI verification
  runs second exactly when \<open>leiCode\<close> is given and non-empty, and otherwise nothing is
  recorded for it; the adverse-media screening runs last exactly when the Perplexity key
  is configured and is otherwise recorded as skipped. Which requests are issued does not
  depend on any reply, so no failure prevents a later check. Every recorded status is
  completed, error or skipped. The risk factors of the run are exactly those the three
  recorded results account for, in that order, and a check that is not completed (in
  error, skipped or not recorded) accounts for none.
\<close>

theorem run_legal_entity_kyc_checks:
  "fetched (run_legal_entity_kyc key env name code) =
     GleifSearchFetch name # (if truthy code then [LeiFetch (tmpl code)] else [])
       @ (if truthy key then [PerplexityFetch name] else []) \<and>
   riskFactors (run_legal_entity_kyc key env name code) =
     gleif_factors (gleifSearch (run_legal_entity_kyc key env name code))
       @ lei_factors (leiVerification (run_legal_entity_kyc key env name code))
       @ media_factors (adverseMedia (run_legal_entity_kyc key env name code)) \<and>
   (\<exists>g. gleifSearch (run_legal_entity_kyc key env name code) = Some g \<and>
        (gleif_status g = ''completed'' \<or> gleif_status g = ''error'') \<and>
        (gleif_status g = ''error'' \<longrightarrow> gleif_factors (Some g) = [])) \<and>
   (truthy code \<longrightarrow>
      (\<exists>l. leiVerification (run_legal_entity_kyc key env name code) = Some l \<and>
        (lei_status l = ''completed'' \<or> lei_status l = ''error'') \<and>
        (lei_status l = ''error'' \<longrightarrow> lei_factors (Some l) = []))) \<and>
   (\<not> truthy code \<longrightarrow>
      leiVerification (run_legal_entity_kyc key env name code) = None \<and>
      lei_factors (leiVerification (run_legal_entity_kyc key env name code)) = []) \<and>
   (\<exists>m. adverseMedia (run_legal_entity_kyc key env name code) = Some m \<and>
        (if truthy key then media_status m = ''completed'' \<or> media_status m = ''error''
         else media_status m = ''skipped'') \<and>
        (media_status m \<noteq> ''completed'' \<longrightarrow> media_factors (Some m) = []))"
proof -
  let ?r0 = "kyc_initial env name"
  let ?r1 = "gleif_step (gleif_reply env) ?r0"
  let ?r2 = "lei_step code (lei_reply env) ?r1"
  let ?r3 = "media_step key (perplexity_reply env) ?r2"
  let ?R = "run_legal_entity_kyc key env name code"
  have R: "?R = calculate_risk ?r3" by (simp add: run_legal_entity_kyc_def)
  have r0: "riskFactors ?r0 = []" "fetched ?r0 = []" "companyName ?r0 = name"
    "leiVerification ?r0 = None"
    by (simp_all add: kyc_initial_def)
  note f1 = gleif_step_frame [of "gleif_reply env" ?r0]
  note f2 = lei_step_frame [of code "lei_reply env" ?r1]
  note f3 = media_step_frame [of key "perplexity_reply env" ?r2]
  note f4 = calculate_risk_frame [of ?r3]
  have gs: "gleifSearch ?R = gleifSearch ?r1" unfolding R using f2 f3 f4 by simp
  have lv: "leiVerification ?R = leiVerification ?r2" unfolding R using f3 f4 by simp
  have am: "adverseMedia ?R = adverseMedia ?r3" unfolding R using f4 by simp
  have rf: "riskFactors ?R = riskFactors ?r3" unfolding R using f4 by simp
  have e1: "riskFactors ?r1 = gleif_factors (gleifSearch ?r1)"
    using gleif_step_exact [of "gleif_reply env" ?r0] r0 by simp
  have e2: "riskFactors ?r2 = riskFactors ?r1 @ lei_factors (leiVerification ?r2)"
  proof (cases "truthy code")
    case True
    then show ?thesis by (rule lei_step_exact)
  next
    case False
    then have "?r2 = ?r1" by (rule lei_step_absent)
    moreover have "leiVerification ?r1 = None" using f1 r0 by simp
    ultimately show ?thesis by simp
  qed
  have e3: "riskFactors ?r3 = riskFactors ?r2 @ media_factors (adverseMedia ?r3)"
    by (rule media_step_exact)
  have c1: "fetched ?R = GleifSearchFetch name # (if truthy code then [LeiFetch (tmpl code)] else [])
       @ (if truthy key then [PerplexityFetch name] else [])"
    unfolding R using f1 f2 f3 f4 r0 by simp
  have c2: "riskFactors ?R = gleif_factors (gleifSearch ?R) @ lei_factors (leiVerification ?R)
       @ media_factors (adverseMedia ?R)"
    unfolding gs lv am rf e3 e2 e1 by simp
  from gleif_step_check [of "gleif_reply env" ?r0] obtain g where
    g: "gleifSearch ?r1 = Some g" "gleif_status g = ''completed'' \<or> gleif_status g = ''error''"
    by auto
  have c3: "\<exists>g. gleifSearch ?R = Some g \<and>
        (gleif_status g = ''completed'' \<or> gleif_status g = ''error'') \<and>
        (gleif_status g = ''error'' \<longrightarrow> gleif_factors (Some g) = [])"
    using g gs gleif_factors_error by auto
  have c4: "truthy code \<longrightarrow>
      (\<exists>l. leiVerification ?R = Some l \<and>
        (lei_status l = ''completed'' \<or> lei_status l = ''error'') \<and>
        (lei_status l = ''error'' \<longrightarrow> lei_factors (Some l) = []))"
  proof
    assume "truthy code"
    from lei_step_check [OF this, of "lei_reply env" ?r1] obtain l where
      "leiVerification ?r2 = Some l" "lei_status l = ''completed'' \<or> lei_status l = ''error''"
      by auto
    then show "\<exists>l. leiVerification ?R = Some l \<and>
        (lei_status l = ''completed'' \<or> lei_status l = ''error'') \<and>
        (lei_status l = ''error'' \<longrightarrow> lei_factors (Some l) = [])"
      using lv lei_factors_error by auto
  qed
  have c5: "\<not> truthy code \<longrightarrow>
      leiVerification ?R = None \<and> lei_factors (leiVerification ?R) = []"
  proof
    assume "\<not> truthy code"
    then have "?r2 = ?r1" by (rule lei_step_absent)
    moreover have "leiVerification ?r1 = None" using f1 r0 by simp
    ultimately have "leiVerification ?R = None" using lv by simp
    then show "leiVerification ?R = None \<and> lei_factors (leiVerification ?R) = []" by simp
  qed
  from media_step_check [of key "perplexity_reply env" ?r2] obtain m where
    m: "adverseMedia ?r3 = Some m"
      "if truthy key then media_status m = ''completed'' \<or> media_status m = ''error''
         else media_status m = ''skipped''"
    by auto
  have c6: "\<exists>m. adverseMedia ?R = Some m \<and>
        (if truthy key then media_status m = ''completed'' \<or> media_status m = ''error''
         else media_status m = ''skipped'') \<and>
        (media_status m \<noteq> ''completed'' \<longrightarrow> media_factors (Some m) = [])"
    using m am media_factors_not_completed by auto
  from c1 c2 c3 c4 c5 c6 show ?thesis by blast
qed

theorem run_legal_entity_kyc_checks_witness:
  "fetched (run_legal_entity_kyc None
      \<lparr>now_iso = ''2026-01-01T00:00:00.000Z'',
        gleif_reply = FetchRejects ''connect ECONNREFUSED'',
        lei_reply = Response 200 []
          (Inr \<lparr>record_data = Some \<lparr>attributes = Some \<lparr>lei = Some ''X1'', entity_part = None,
               registration_part = Some \<lparr>registration_status = Some ''LAPSED'', nextRenewalDate = None\<rparr>\<rparr>\<rparr>\<rparr>),
        perplexity_reply = FetchRejects ''unused''\<rparr>
      ''Acme'' (Some ''X1'')) = [GleifSearchFetch ''Acme'', LeiFetch ''X1''] \<and>
   gleifSearch (run_legal_entity_kyc None
      \<lparr>now_iso = ''2026-01-01T00:00:00.000Z'',
        gleif_reply = FetchRejects ''connect ECONNREFUSED'',
        lei_reply = Response 200 []
          (Inr \<lparr>record_data = Some \<lparr>attributes = Some \<lparr>lei = Some ''X1'', entity_part = None,
               registration_part = Some \<lparr>registration_status = Some ''LAPSED'', nextRenewalDate = None\<rparr>\<rparr>\<rparr>\<rparr>),
        perplexity_reply = FetchRejects ''unused''\<rparr>
      ''Acme'' (Some ''X1'')) = Some (GleifError ''connect ECONNREFUSED'') \<and>
   riskFactors (run_legal_entity_kyc None
      \<lparr>now_iso = ''2026-01-01T00:00:00.000Z'',
        gleif_reply = FetchRejects ''connect ECONNREFUSED'',
        lei_reply = Response 200 []
          (Inr \<lparr>record_data = Some \<lparr>attributes = Some \<lparr>lei = Some ''X1'', entity_part = None,
               registration_part = Some \<lparr>registration_status = Some ''LAPSED'', nextRenewalDate = None\<rparr>\<rparr>\<rparr>\<rparr>),
        perplexity_reply = FetchRejects ''unused''\<rparr>
      ''Acme'' (Some ''X1'')) = [''LEI registration status: LAPSED'']"
  using run_legal_entity_kyc_checks [of None
      "\<lparr>now_iso = ''2026-01-01T00:00:00.000Z'',
        gleif_reply = FetchRejects ''connect ECONNREFUSED'',
        lei_reply = Response 200 []
          (Inr \<lparr>record_data = Some \<lparr>attributes = Some \<lparr>lei = Some ''X1'', entity_part = None,
               registration_part = Some \<lparr>registration_status = Some ''LAPSED'', nextRenewalDate = None\<rparr>\<rparr>\<rparr>\<rparr>),
        perplexity_reply = FetchRejects ''unused''\<rparr>" "''Acme''" "Some ''X1''"]
  by (simp add: run_legal_entity_kyc_def kyc_initial_def gleif_step_def lei_step_def media_step_def
      calculate_risk_def push_factor_def log_fetch_def truthy_def ok_def tmpl_def)

text \<open>
  C6 as stated fails: without a \<open>leiCode\<close> the LEI verification does not run and no
  status is recorded for it.
\<close>

theorem run_legal_entity_kyc_lei_counterexample:
  "leiVerification (run_legal_entity_kyc None
      \<lparr>now_iso = ''2026-01-01T00:00:00.000Z'',
        gleif_reply = Response 200 [] (Inr \<lparr>search_data = None\<rparr>),
        lei_reply = FetchRejects ''unused'',
        perplexity_reply = FetchRejects ''unused''\<rparr>
      ''Acme'' None) = None \<and>
   fetched (run_legal_entity_kyc None
      \<lparr>now_iso = ''2026-01-01T00:00:00.000Z'',
        gleif_reply = Response 200 [] (Inr \<lparr>search_data = None\<rparr>),
        lei_reply = FetchRejects ''unused'',
        perplexity_reply = FetchRejects ''unused''\<rparr>
      ''Acme'' None) = [GleifSearchFetch ''Acme'']"
  by (simp add: run_legal_entity_kyc_def kyc_initial_def gleif_step_def lei_step_def media_step_def
      calculate_risk_def push_factor_def log_fetch_def truthy_def ok_def)

section \<open>Properties of the session registry and the routes\<close>

lemma serve_rejected_unchanged:
  "validateApiKey (API_KEY cfg) req = Rejected code err msg \<Longrightarrow> uses_validateApiKey rt \<Longrightarrow>
   serve cfg isInit env rt req st =
     (Answered \<lparr> status_code = code, headers = [], payload = AuthError err msg \<rparr>, st)"
  by (simp add: serve_def)

text \<open>
  C5. For every POST to \<open>/mcp\<close> that has passed the API-key middleware: when it carries
  a (non-empty) session identifier that is not in the registry, or carries none and is
  not an initialize request, the answer is the 400 JSON-RPC error and the server state,
  the registry included, is unchanged. When it carries none and is an initialize
  request, the answer returns the generated identifier in the \<open>mcp-session-id\<close> header
  and the registry gains exactly that identifier, all other entries staying as they
  were (the generated identifier being fresh).
\<close>

theorem post_mcp_session_rules:
  assumes "validateApiKey (API_KEY cfg) req = Next"
  shows
    "(((\<exists>k. mcp_session_id req = Some k \<and> k \<noteq> [] \<and> streamableTransports st k = None) \<or>
       (\<not> truthy (mcp_session_id req) \<and> \<not> isInit (body req))) \<longrightarrow>
      serve cfg isInit env PostMcp req st =
        (Answered \<lparr> status_code = 400, headers = [],
            payload = JsonRpcError (- 32000) ''Bad Request: No valid session ID provided'' \<rparr>, st)) \<and>
     (\<not> truthy (mcp_session_id req) \<and> isInit (body req) \<and>
        streamableTransports st (random_uuid env) = None \<longrightarrow>
      (\<exists>st'. serve cfg isInit env PostMcp req st =
          (Answered \<lparr> status_code = 200, headers = [(''mcp-session-id'', random_uuid env)],
              payload = InitializeResult \<rparr>, st') \<and>
        dom (streamableTransports st') = insert (random_uuid env) (dom (streamableTransports st)) \<and>
        random_uuid env \<notin> dom (streamableTransports st) \<and>
        (\<forall>k. k \<noteq> random_uuid env \<longrightarrow> streamableTransports st' k = streamableTransports st k) \<and>
        token_slot st' = token_slot st))"
proof (intro conjI impI)
  assume "(\<exists>k. mcp_session_id req = Some k \<and> k \<noteq> [] \<and> streamableTransports st k = None) \<or>
       (\<not> truthy (mcp_session_id req) \<and> \<not> isInit (body req))"
  then have ks: "known_session (streamableTransports st) (mcp_session_id req) = None"
    and no_init: "(\<not> truthy (mcp_session_id req) \<and> isInit (body req)) = False"
    by (auto simp: known_session_def truthy_def split: option.splits)
  show "serve cfg isInit env PostMcp req st =
        (Answered \<lparr> status_code = 400, headers = [],
            payload = JsonRpcError (- 32000) ''Bad Request: No valid session ID provided'' \<rparr>, st)"
    by (simp add: serve_def post_mcp_def bad_request_def assms ks no_init)
next
  assume a: "\<not> truthy (mcp_session_id req) \<and> isInit (body req) \<and>
        streamableTransports st (random_uuid env) = None"
  then have "known_session (streamableTransports st) (mcp_session_id req) = None"
    by (auto simp: known_session_def truthy_def split: option.splits)
  with a assms
  have "serve cfg isInit env PostMcp req st =
          (Answered \<lparr> status_code = 200, headers = [(''mcp-session-id'', random_uuid env)],
              payload = InitializeResult \<rparr>,
           st\<lparr> streamableTransports :=
                (streamableTransports st)(random_uuid env \<mapsto> \<lparr> sessionId = Some (random_uuid env) \<rparr>) \<rparr>)"
    by (simp add: serve_def post_mcp_def sdk_handle_initialize_def)
  moreover from a have "random_uuid env \<notin> dom (streamableTransports st)" by (simp add: domIff)
  ultimately
  show "\<exists>st'. serve cfg isInit env PostMcp req st =
          (Answered \<lparr> status_code = 200, headers = [(''mcp-session-id'', random_uuid env)],
              payload = InitializeResult \<rparr>, st') \<and>
        dom (streamableTransports st') = insert (random_uuid env) (dom (streamableTransports st)) \<and>
        random_uuid env \<notin> dom (streamableTransports st) \<and>
        (\<forall>k. k \<noteq> random_uuid env \<longrightarrow> streamableTransports st' k = streamableTransports st k) \<and>
        token_slot st' = token_slot st"
    by simp
qed

theorem post_mcp_session_rules_witness:
  "validateApiKey (Some ''abc123'')
      \<lparr>x_api_key = Some ''abc123'', authorization = None, query_api_key = Undefined,
        mcp_session_id = Some ''id-9'', body = ''tools/list''\<rparr> = Next \<and>
   serve \<lparr>API_KEY = Some ''abc123'', DATAVERSE_URL = None, DATAVERSE_CLIENT_ID = None,
          DATAVERSE_CLIENT_SECRET = None, DOC_INTELLIGENCE_KEY = None\<rparr>
      (\<lambda>b. b = ''initialize'')
      \<lparr>clock_iso = ''t'', random_uuid = ''id-2'',
        dataverse_part = \<lparr>token_part = \<lparr>now_check = 0, token_reply = FetchRejects [], now_store = 0\<rparr>,
          api_reply = Response 200 [] (Inr ())\<rparr>\<rparr>
      PostMcp
      \<lparr>x_api_key = Some ''abc123'', authorization = None, query_api_key = Undefined,
        mcp_session_id = Some ''id-9'', body = ''tools/list''\<rparr>
      \<lparr>streamableTransports = [''id-1'' \<mapsto> \<lparr>sessionId = Some ''id-1''\<rparr>], token_slot = initial_cache\<rparr>
     = (Answered \<lparr> status_code = 400, headers = [],
            payload = JsonRpcError (- 32000) ''Bad Request: No valid session ID provided'' \<rparr>,
        \<lparr>streamableTransports = [''id-1'' \<mapsto> \<lparr>sessionId = Some ''id-1''\<rparr>], token_slot = initial_cache\<rparr>) \<and>
   fst (serve \<lparr>API_KEY = Some ''abc123'', DATAVERSE_URL = None, DATAVERSE_CLIENT_ID = None,
          DATAVERSE_CLIENT_SECRET = None, DOC_INTELLIGENCE_KEY = None\<rparr>
      (\<lambda>b. b = ''initialize'')
      \<lparr>clock_iso = ''t'', random_uuid = ''id-2'',
        dataverse_part = \<lparr>token_part = \<lparr>now_check = 0, token_reply = FetchRejects [], now_store = 0\<rparr>,
          api_reply = Response 200 [] (Inr ())\<rparr>\<rparr>
      PostMcp
      \<lparr>x_api_key = Some ''abc123'', authorization = None, query_api_key = Undefined,
        mcp_session_id = None, body = ''initialize''\<rparr>
      \<lparr>streamableTransports = [''id-1'' \<mapsto> \<lparr>sessionId = Some ''id-1''\<rparr>], token_slot = initial_cache\<rparr>)
     = Answered \<lparr> status_code = 200, headers = [(''mcp-session-id'', ''id-2'')],
            payload = InitializeResult \<rparr>"
  using post_mcp_session_rules [where cfg = "\<lparr>API_KEY = Some ''abc123'', DATAVERSE_URL = None,
          DATAVERSE_CLIENT_ID = None, DATAVERSE_CLIENT_SECRET = None, DOC_INTELLIGENCE_KEY = None\<rparr>"
      and isInit = "\<lambda>b. b = ''initialize''"
      and env = "\<lparr>clock_iso = ''t'', random_uuid = ''id-2'',
        dataverse_part = \<lparr>token_part = \<lparr>now_check = 0, token_reply = FetchRejects [], now_store = 0\<rparr>,
          api_reply = Response 200 [] (Inr ())\<rparr>\<rparr>"
      and req = "\<lparr>x_api_key = Some ''abc123'', authorization = None, query_api_key = Undefined,
        mcp_session_id = Some ''id-9'', body = ''tools/list''\<rparr>"
      and st = "\<lparr>streamableTransports = [''id-1'' \<mapsto> \<lparr>sessionId = Some ''id-1''\<rparr>],
        token_slot = initial_cache\<rparr>"]
    post_mcp_session_rules [where cfg = "\<lparr>API_KEY = Some ''abc123'', DATAVERSE_URL = None,
          DATAVERSE_CLIENT_ID = None, DATAVERSE_CLIENT_SECRET = None, DOC_INTELLIGENCE_KEY = None\<rparr>"
      and isInit = "\<lambda>b. b = ''initialize''"
      and env = "\<lparr>clock_iso = ''t'', random_uuid = ''id-2'',
        dataverse_part = \<lparr>token_part = \<lparr>now_check = 0, token_reply = FetchRejects [], now_store = 0\<rparr>,
          api_reply = Response 200 [] (Inr ())\<rparr>\<rparr>"
      and req = "\<lparr>x_api_key = Some ''abc123'', authorization = None, query_api_key = Undefined,
        mcp_session_id = None, body = ''initialize''\<rparr>"
      and st = "\<lparr>streamableTransports = [''id-1'' \<mapsto> \<lparr>sessionId = Some ''id-1''\<rparr>],
        token_slot = initial_cache\<rparr>"]
  by (simp add: serve_def post_mcp_def sdk_handle_initialize_def bad_request_def
      validateApiKey_def providedKey_def js_or_def of_header_def truthy_def known_session_def)

text \<open>
  C10. \<open>GET /health\<close> and \<open>GET /\<close> are registered without \<open>validateApiKey\<close>:
  replacing the three credential carriers of a request by any others leaves the answer
  and the server state the same, and the answer is a 200 whatever secret is configured.
\<close>

theorem public_routes_ignore_credentials:
  "serve cfg isInit env GetHealth (req\<lparr> x_api_key := a, authorization := b, query_api_key := q \<rparr>) st
     = serve cfg isInit env GetHealth req st \<and>
   serve cfg isInit env GetRoot (req\<lparr> x_api_key := a, authorization := b, query_api_key := q \<rparr>) st
     = serve cfg isInit env GetRoot req st \<and>
   (\<exists>p. fst (serve cfg isInit env GetHealth req st)
          = Answered \<lparr>status_code = 200, headers = [], payload = p\<rparr>) \<and>
   (\<exists>p. fst (serve cfg isInit env GetRoot req st)
          = Answered \<lparr>status_code = 200, headers = [], payload = p\<rparr>) \<and>
   snd (serve cfg isInit env GetHealth req st) = st \<and>
   snd (serve cfg isInit env GetRoot req st) = st"
  by (simp add: serve_def get_health_def get_root_def)

theorem public_routes_ignore_credentials_witness:
  "fst (serve \<lparr>API_KEY = Some ''abc123'', DATAVERSE_URL = None, DATAVERSE_CLIENT_ID = None,
          DATAVERSE_CLIENT_SECRET = None, DOC_INTELLIGENCE_KEY = None\<rparr>
      (\<lambda>b. b = ''initialize'')
      \<lparr>clock_iso = ''t'', random_uuid = ''id-2'',
        dataverse_part = \<lparr>token_part = \<lparr>now_check = 0, token_reply = FetchRejects [], now_store = 0\<rparr>,
          api_reply = Response 200 [] (Inr ())\<rparr>\<rparr>
      GetHealth
      \<lparr>x_api_key = Some ''wrong'', authorization = None, query_api_key = Undefined,
        mcp_session_id = None, body = []\<rparr>
      \<lparr>streamableTransports = Map.empty, token_slot = initial_cache\<rparr>)
     = Answered \<lparr>status_code = 200, headers = [],
          payload = Health ''healthy'' ''t'' True False False\<rparr> \<and>
   fst (serve \<lparr>API_KEY = Some ''abc123'', DATAVERSE_URL = None, DATAVERSE_CLIENT_ID = None,
          DATAVERSE_CLIENT_SECRET = None, DOC_INTELLIGENCE_KEY = None\<rparr>
      (\<lambda>b. b = ''initialize'')
      \<lparr>clock_iso = ''t'', random_uuid = ''id-2'',
        dataverse_part = \<lparr>token_part = \<lparr>now_check = 0, token_reply = FetchRejects [], now_store = 0\<rparr>,
          api_reply = Response 200 [] (Inr ())\<rparr>\<rparr>
      GetTestDataverse
      \<lparr>x_api_key = Some ''wrong'', authorization = None, query_api_key = Undefined,
        mcp_session_id = None, body = []\<rparr>
      \<lparr>streamableTransports = Map.empty, token_slot = initial_cache\<rparr>)
     = Answered \<lparr>status_code = 403, headers = [], payload = AuthError ''Forbidden'' ''Invalid API key''\<rparr>"
  using public_routes_ignore_credentials [where cfg = "\<lparr>API_KEY = Some ''abc123'', DATAVERSE_URL = None,
          DATAVERSE_CLIENT_ID = None, DATAVERSE_CLIENT_SECRET = None, DOC_INTELLIGENCE_KEY = None\<rparr>"
      and isInit = "\<lambda>b. b = ''initialize''"
      and env = "\<lparr>clock_iso = ''t'', random_uuid = ''id-2'',
        dataverse_part = \<lparr>token_part = \<lparr>now_check = 0, token_reply = FetchRejects [], now_store = 0\<rparr>,
          api_reply = Response 200 [] (Inr ())\<rparr>\<rparr>"
      and req = "\<lparr>x_api_key = None, authorization = None, query_api_key = Undefined,
        mcp_session_id = None, body = []\<rparr>"
      and a = "Some ''wrong''" and b = None and q = Undefined
      and st = "\<lparr>streamableTransports = Map.empty, token_slot = initial_cache\<rparr>"]
  by (simp add: serve_def get_health_def validateApiKey_def providedKey_def js_or_def of_header_def
      truthy_def)

end
